theory Spec2Isabelle
  imports Complex_Main
begin

section \<open>Numbers\<close>

text \<open>
  The solver computes in C++ \<^verbatim>\<open>double\<close>. The embedding uses the real numbers for
  finite values and adds the one infinite value the code itself writes down,
  \<^verbatim>\<open>std::numeric_limits<double>::infinity()\<close>, as the constructor \<open>PInf\<close>. Rounding and
  NaN are not part of the model.
\<close>

datatype xreal = Fin real | PInf

text \<open>\<^verbatim>\<open>fmin(a, b)\<close> on values that are finite or plus infinity.\<close>

fun fmin :: "xreal \<Rightarrow> xreal \<Rightarrow> xreal" where
  "fmin PInf y = y"
| "fmin (Fin a) PInf = Fin a"
| "fmin (Fin a) (Fin b) = Fin (min a b)"

text \<open>The comparison \<^verbatim>\<open>a < b\<close>.\<close>

fun xless :: "xreal \<Rightarrow> xreal \<Rightarrow> bool" where
  "xless PInf y = False"
| "xless (Fin a) PInf = True"
| "xless (Fin a) (Fin b) = (a < b)"

type_synonym vec = "real list"

text \<open>
  A \<^verbatim>\<open>DenseMatrix\<close> of size dim x dim is a function from (row, column) to the entry;
  only the entries with both indices below dim are storage of the program.
\<close>

type_synonym mat = "nat \<Rightarrow> nat \<Rightarrow> real"

definition mat_zero :: mat where
  "mat_zero = (\<lambda>i j. 0)"

definition mat_identity :: mat where
  "mat_identity = (\<lambda>i j. if i = j then 1 else 0)"

definition mat_trace :: "nat \<Rightarrow> mat \<Rightarrow> real" where
  "mat_trace n A = (\<Sum>d<n. A d d)"

definition mat_scale :: "real \<Rightarrow> mat \<Rightarrow> mat" where
  "mat_scale a A = (\<lambda>i j. a * A i j)"

text \<open>\<^verbatim>\<open>A.Add(c, B)\<close>: A + c B.\<close>

definition mat_add :: "mat \<Rightarrow> real \<Rightarrow> mat \<Rightarrow> mat" where
  "mat_add A c B = (\<lambda>i j. A i j + c * B i j)"

text \<open>\<^verbatim>\<open>A.Symmetrize()\<close>: the mean of A and its transpose.\<close>

definition mat_symmetrize :: "mat \<Rightarrow> mat" where
  "mat_symmetrize A = (\<lambda>i j. (A i j + A j i) / 2)"

text \<open>\<^verbatim>\<open>mfem::Mult(A, B, C)\<close>: C = A B.\<close>

definition mat_mult :: "nat \<Rightarrow> mat \<Rightarrow> mat \<Rightarrow> mat" where
  "mat_mult n A B = (\<lambda>i j. \<Sum>k<n. A i k * B k j)"

text \<open>\<^verbatim>\<open>MultABt(A, B, C)\<close>: C = A times the transpose of B.\<close>

definition mat_mult_ABt :: "nat \<Rightarrow> mat \<Rightarrow> mat \<Rightarrow> mat" where
  "mat_mult_ABt n A B = (\<lambda>i j. \<Sum>k<n. A i k * B j k)"

text \<open>\<^verbatim>\<open>DenseMatrix::FNorm()\<close>, the Frobenius norm.\<close>

definition mat_fnorm :: "nat \<Rightarrow> mat \<Rightarrow> real" where
  "mat_fnorm n A = sqrt (\<Sum>i<n. \<Sum>j<n. (A i j)\<^sup>2)"

section \<open>The quadrature update kernel\<close>

text \<open>Smooth transition between 0 and 1 for x in [-eps, eps].\<close>

definition smooth_step_01 :: "real \<Rightarrow> real \<Rightarrow> real" where
  "smooth_step_01 x eps =
     (let y = (x + eps) / (2.0 * eps)
      in if y < 0.0 then 0.0 else if y > 1.0 then 1.0 else (3.0 - 2.0 * y) * y * y)"

text \<open>
  The constant members of \<^verbatim>\<open>LagrangianHydroOperator\<close> that the kernel reads:
  the space dimension, the number of zones \<^verbatim>\<open>NE\<close>, the assembly mode, the viscosity
  switches, the CFL factor, the initial length scale \<^verbatim>\<open>qdata.h0\<close>, the kinematic order
  \<^verbatim>\<open>H1.GetOrder(0)\<close> and the source type.
\<close>

record config =
  cfg_dim :: nat
  cfg_NE :: nat
  cfg_p_assembly :: bool
  cfg_use_viscosity :: bool
  cfg_use_vorticity :: bool
  cfg_cfl :: real
  cfg_h0 :: real
  cfg_h1order :: real
  cfg_source_type :: int

text \<open>
  What the finite element library hands the kernel at one quadrature point: the
  determinant, inverse and smallest singular value of the reference-to-physical Jacobian
  \<^verbatim>\<open>Jpr\<close>, the integration weight, the cached \<^verbatim>\<open>rho0DetJ0w\<close>, the interpolated energy,
  the velocity gradient, the six stress components read from the state, the first
  eigenvalue of the velocity gradient and the two norms \<^verbatim>\<open>ph_dir.Norml2()\<close> and
  \<^verbatim>\<open>compr_dir.Norml2()\<close>.
\<close>

record qpoint =
  q_detJ :: real
  q_Jinv :: mat
  q_sv :: real
  q_weight :: real
  q_rho0DetJ0w :: real
  q_e :: real
  q_sgrad_v :: mat
  q_sxx :: real
  q_sxy :: real
  q_sxz :: real
  q_syy :: real
  q_syz :: real
  q_szz :: real
  q_eig :: real
  q_ph_dir_nl2 :: real
  q_compr_dir_nl2 :: real

text \<open>A zone: its piecewise constant \<^verbatim>\<open>gamma_gf\<close>, \<^verbatim>\<open>lambda_gf\<close>, \<^verbatim>\<open>mu_gf\<close> and its
  quadrature points.\<close>

record zone =
  z_gamma :: real
  z_lambda :: real
  z_mu :: real
  z_pts :: "qpoint list"

text \<open>
  \<^verbatim>\<open>ComputeMaterialProperties\<close> is declared in a header that is not part of the sources
  at hand; it is a parameter of the kernel: from gamma, rho, e and the p-wave modulus
  it gives the pressure and the sound speed.
\<close>

type_synonym material = "real \<Rightarrow> real \<Rightarrow> real \<Rightarrow> real \<Rightarrow> real \<times> real"

subsection \<open>Full assembly: the body of the loop over quadrature points\<close>

text \<open>\<^verbatim>\<open>rho_b[idx] = qdata.rho0DetJ0w(z_id*nqp + q) / detJ / ip.weight\<close>\<close>

definition fa_rho :: "qpoint \<Rightarrow> real" where
  "fa_rho q = q_rho0DetJ0w q / q_detJ q / q_weight q"

definition fa_sound_speed :: "material \<Rightarrow> zone \<Rightarrow> qpoint \<Rightarrow> real" where
  "fa_sound_speed mp z q =
     snd (mp (z_gamma z) (fa_rho q) (max 0.0 (q_e q)) (z_lambda z + 2 * z_mu z))"

definition fa_old_sig :: "nat \<Rightarrow> qpoint \<Rightarrow> mat" where
  "fa_old_sig n q =
     (if n = 2 then
        (\<lambda>i j. if i = 0 \<and> j = 0 then q_sxx q
               else if (i = 0 \<and> j = 1) \<or> (i = 1 \<and> j = 0) then q_sxy q
               else if i = 1 \<and> j = 1 then q_syy q else 0)
      else if n = 3 then
        (\<lambda>i j. if i = 0 \<and> j = 0 then q_sxx q
               else if (i = 0 \<and> j = 1) \<or> (i = 1 \<and> j = 0) then q_sxy q
               else if (i = 0 \<and> j = 2) \<or> (i = 2 \<and> j = 0) then q_sxz q
               else if i = 1 \<and> j = 1 then q_syy q
               else if (i = 1 \<and> j = 2) \<or> (i = 2 \<and> j = 1) then q_syz q
               else if i = 2 \<and> j = 2 then q_szz q else 0)
      else mat_zero)"

definition vorticity_coeff :: "config \<Rightarrow> mat \<Rightarrow> real" where
  "vorticity_coeff cfg G =
     (if cfg_use_vorticity cfg then
        (let grad_norm = mat_fnorm (cfg_dim cfg) G;
             div_v = \<bar>mat_trace (cfg_dim cfg) G\<bar>
         in if grad_norm > 0.0 then div_v / grad_norm else 1.0)
      else 1.0)"

text \<open>The viscosity coefficient from density, length scale \<open>h\<close>, sound speed, vorticity
  coefficient and the measure of maximal compression \<open>mu\<close>.\<close>

definition visc_formula :: "real \<Rightarrow> real \<Rightarrow> real \<Rightarrow> real \<Rightarrow> real \<Rightarrow> real" where
  "visc_formula rho h sound_speed vc mu =
     (let eps = 1 / 10 ^ 12
      in 2.0 * rho * h * h * \<bar>mu\<bar>
         + 0.5 * rho * h * sound_speed * vc * (1.0 - smooth_step_01 (mu - 2.0 * eps) eps))"

definition fa_visc_coeff :: "config \<Rightarrow> material \<Rightarrow> zone \<Rightarrow> qpoint \<Rightarrow> real" where
  "fa_visc_coeff cfg mp z q =
     (if cfg_use_viscosity cfg then
        (let h = cfg_h0 cfg * q_ph_dir_nl2 q / q_compr_dir_nl2 q
         in visc_formula (fa_rho q) h (fa_sound_speed mp z q)
              (vorticity_coeff cfg (q_sgrad_v q)) (q_eig q))
      else 0.0)"

definition fa_srate :: "qpoint \<Rightarrow> mat" where
  "fa_srate q = mat_symmetrize (q_sgrad_v q)"

definition fa_spin :: "qpoint \<Rightarrow> mat" where
  "fa_spin q = mat_add (q_sgrad_v q) (-1.0) (fa_srate q)"

text \<open>The matrix \<^verbatim>\<open>stress\<close> before the contraction with the inverse Jacobian.\<close>

definition fa_stress :: "config \<Rightarrow> material \<Rightarrow> zone \<Rightarrow> qpoint \<Rightarrow> mat" where
  "fa_stress cfg mp z q =
     (if cfg_use_viscosity cfg then
        mat_add (mat_add mat_zero (fa_visc_coeff cfg mp z q) (q_sgrad_v q))
                1.0 (fa_old_sig (cfg_dim cfg) q)
      else mat_zero)"

text \<open>The matrix \<^verbatim>\<open>tau0\<close> before the scaling by rho, weight and determinant.\<close>

definition fa_tau0 :: "config \<Rightarrow> zone \<Rightarrow> qpoint \<Rightarrow> mat" where
  "fa_tau0 cfg z q =
     (if cfg_use_viscosity cfg then
        (let n = cfg_dim cfg;
             lame1 = z_lambda z;
             lame2 = z_mu z;
             srate = fa_srate q;
             spin = fa_spin q;
             old_sig = fa_old_sig n q;
             tau0 = mat_scale (2 * lame2) srate;
             tau1 = mat_scale (2 * lame1 * mat_trace n srate / real n) mat_identity;
             tau0 = mat_add tau0 1.0 tau1;
             crot1 = mat_mult n old_sig spin;
             crot2 = mat_mult n spin old_sig;
             tau0 = mat_add tau0 1.0 crot1;
             tau0 = mat_add tau0 (-1.0) crot2
         in tau0)
      else mat_zero)"

definition fa_h_min :: "config \<Rightarrow> qpoint \<Rightarrow> real" where
  "fa_h_min cfg q = q_sv q / cfg_h1order cfg"

definition fa_inv_dt :: "config \<Rightarrow> material \<Rightarrow> zone \<Rightarrow> qpoint \<Rightarrow> real" where
  "fa_inv_dt cfg mp z q =
     fa_sound_speed mp z q / fa_h_min cfg q
     + 2.5 * fa_visc_coeff cfg mp z q / fa_rho q / fa_h_min cfg q / fa_h_min cfg q"

text \<open>The update of \<^verbatim>\<open>qdata.dt_est\<close> at one point; \<open>min_detJ\<close> is the minimum over the
  batch the point belongs to. The three diagnostic slots \<^verbatim>\<open>old_stress[0..2]\<close> updated in
  the same branch feed neither the estimate nor the caches and are left out.\<close>

definition fa_dt_update :: "config \<Rightarrow> material \<Rightarrow> xreal \<Rightarrow> zone \<Rightarrow> qpoint \<Rightarrow> xreal \<Rightarrow> xreal" where
  "fa_dt_update cfg mp min_detJ z q dt_est =
     (let inv_dt = fa_inv_dt cfg mp z q
      in if xless min_detJ (Fin 0.0) then Fin 0.0
         else if inv_dt > 0.0 then fmin dt_est (Fin (cfg_cfl cfg * (1.0 / inv_dt)))
         else dt_est)"

text \<open>What is stored in \<^verbatim>\<open>qdata.stressJinvT\<close> and \<^verbatim>\<open>qdata.tauJinvT\<close> at the point.\<close>

definition fa_stressJiT :: "config \<Rightarrow> material \<Rightarrow> zone \<Rightarrow> qpoint \<Rightarrow> mat" where
  "fa_stressJiT cfg mp z q =
     mat_scale (q_weight q * q_detJ q)
       (mat_mult_ABt (cfg_dim cfg) (fa_stress cfg mp z q) (q_Jinv q))"

definition fa_tauJinvT :: "config \<Rightarrow> zone \<Rightarrow> qpoint \<Rightarrow> mat" where
  "fa_tauJinvT cfg z q = mat_scale (fa_rho q * q_weight q * q_detJ q) (fa_tau0 cfg z q)"


subsection \<open>Full assembly: the loops over batches, zones and points\<close>

text \<open>
  Zones are processed in batches of \<^verbatim>\<open>nzones_batch = 3\<close>; the last batch holds the
  remainder and an empty remainder ends the loop.
\<close>

fun batches3 :: "'a list \<Rightarrow> 'a list list" where
  "batches3 (a # b # c # rest) = [a, b, c] # batches3 rest"
| "batches3 [] = []"
| "batches3 xs = [xs]"

text \<open>First pass over a batch: \<^verbatim>\<open>min_detJ = fmin(min_detJ, detJ)\<close> from infinity.\<close>

definition batch_min_detJ :: "zone list \<Rightarrow> xreal" where
  "batch_min_detJ zs = fold (\<lambda>q m. fmin m (Fin (q_detJ q))) (concat (map z_pts zs)) PInf"

definition fa_zone_dt :: "config \<Rightarrow> material \<Rightarrow> xreal \<Rightarrow> zone \<Rightarrow> xreal \<Rightarrow> xreal" where
  "fa_zone_dt cfg mp min_detJ z dt_est = fold (fa_dt_update cfg mp min_detJ z) (z_pts z) dt_est"

definition fa_batch_dt :: "config \<Rightarrow> material \<Rightarrow> zone list \<Rightarrow> xreal \<Rightarrow> xreal" where
  "fa_batch_dt cfg mp zs dt_est = fold (fa_zone_dt cfg mp (batch_min_detJ zs)) zs dt_est"

definition fa_loop_dt :: "config \<Rightarrow> material \<Rightarrow> zone list \<Rightarrow> xreal \<Rightarrow> xreal" where
  "fa_loop_dt cfg mp zones dt_est = fold (fa_batch_dt cfg mp) (batches3 zones) dt_est"

text \<open>
  The two caches hold one matrix per zone and quadrature point; slot
  \<^verbatim>\<open>z_id*nqp + q\<close> of the program is entry \<open>q\<close> of row \<open>z_id\<close> here. Every slot is
  rewritten by a refresh.
\<close>

type_synonym cache = "mat list list"

definition fa_loop_stressJinvT :: "config \<Rightarrow> material \<Rightarrow> zone list \<Rightarrow> cache" where
  "fa_loop_stressJinvT cfg mp zones = map (\<lambda>z. map (fa_stressJiT cfg mp z) (z_pts z)) zones"

definition fa_loop_tauJinvT :: "config \<Rightarrow> zone list \<Rightarrow> cache" where
  "fa_loop_tauJinvT cfg zones = map (\<lambda>z. map (fa_tauJinvT cfg z) (z_pts z)) zones"

subsection \<open>Partial assembly: \<^verbatim>\<open>QUpdateBody\<close> with the step size argument\<close>

text \<open>
  The inputs of \<^verbatim>\<open>QUpdateBody\<close> at one point: determinant, inverse and smallest singular
  value of the Jacobian \<^verbatim>\<open>J\<close>, weight, \<^verbatim>\<open>d_rho0DetJ0w[eq]\<close>, \<^verbatim>\<open>d_e_quads[eq]\<close>, the
  reference velocity gradient \<^verbatim>\<open>dV\<close>, the first eigenvalue, the two norms, and the
  content of the scratch array \<^verbatim>\<open>tau0\<close> on entry (only its diagonal is initialised).
\<close>

record pa_qpoint =
  p_detJ :: real
  p_Jinv :: mat
  p_sv :: real
  p_weight :: real
  p_rho0DetJ0w :: real
  p_e :: real
  p_dV :: mat
  p_eig :: real
  p_ph_dir_nl2 :: real
  p_compr_dir_nl2 :: real
  p_tau0_scratch :: mat

record pa_zone =
  pz_gamma :: real
  pz_pts :: "pa_qpoint list"

definition pa_R :: "pa_qpoint \<Rightarrow> real" where
  "pa_R q = (1 / p_weight q) * p_rho0DetJ0w q / p_detJ q"

definition pa_E :: "pa_qpoint \<Rightarrow> real" where
  "pa_E q = max 0.0 (p_e q)"

definition pa_P :: "real \<Rightarrow> pa_qpoint \<Rightarrow> real" where
  "pa_P gamma q = (gamma - 1.0) * pa_R q * pa_E q"

definition pa_S :: "real \<Rightarrow> pa_qpoint \<Rightarrow> real" where
  "pa_S gamma q = sqrt (gamma * (gamma - 1.0) * pa_E q)"

text \<open>\<^verbatim>\<open>kernels::Mult(DIM, DIM, DIM, dV, Jinv, sgrad_v)\<close>\<close>

definition pa_grad_v :: "nat \<Rightarrow> pa_qpoint \<Rightarrow> mat" where
  "pa_grad_v n q = mat_mult n (p_dV q) (p_Jinv q)"

definition pa_srate :: "nat \<Rightarrow> pa_qpoint \<Rightarrow> mat" where
  "pa_srate n q = mat_symmetrize (pa_grad_v n q)"

definition pa_spin :: "nat \<Rightarrow> pa_qpoint \<Rightarrow> mat" where
  "pa_spin n q = mat_add (pa_grad_v n q) (-1.0) (pa_srate n q)"

definition pa_visc_coeff :: "config \<Rightarrow> real \<Rightarrow> pa_qpoint \<Rightarrow> real" where
  "pa_visc_coeff cfg gamma q =
     (if cfg_use_viscosity cfg then
        (let H = cfg_h0 cfg * p_ph_dir_nl2 q / p_compr_dir_nl2 q
         in visc_formula (pa_R q) H (pa_S gamma q)
              (vorticity_coeff cfg (pa_grad_v (cfg_dim cfg) q)) (p_eig q))
      else 0.0)"

definition pa_stress :: "config \<Rightarrow> real \<Rightarrow> pa_qpoint \<Rightarrow> mat" where
  "pa_stress cfg gamma q =
     (let stress = mat_scale (- pa_P gamma q) mat_identity
      in if cfg_use_viscosity cfg
         then mat_add stress (pa_visc_coeff cfg gamma q) (pa_srate (cfg_dim cfg) q)
         else stress)"

text \<open>The local array \<^verbatim>\<open>tau0\<close> at the end of the body, with \<^verbatim>\<open>d_mu{1e-1}\<close>; no store
  reads it.\<close>

definition pa_tau0 :: "config \<Rightarrow> pa_qpoint \<Rightarrow> mat" where
  "pa_tau0 cfg q =
     (let n = cfg_dim cfg;
          d_mu = 1 / 10;
          tau0 = (\<lambda>i j. if i = j then 1.0 else p_tau0_scratch q i j);
          tau0 = (if cfg_use_viscosity cfg then
                    (let div_vel = mat_trace n (pa_srate n q);
                         tau0 = mat_scale (- 2 * d_mu * div_vel / 3) tau0;
                         tau1 = mat_scale (2 * d_mu) (pa_srate n q)
                     in mat_add tau0 1 tau1)
                  else tau0)
      in mat_scale (pa_R q * p_weight q * p_detJ q) tau0)"

definition pa_idt :: "config \<Rightarrow> real \<Rightarrow> pa_qpoint \<Rightarrow> real" where
  "pa_idt cfg gamma q =
     (let h_min = p_sv q / cfg_h1order cfg;
          ih_min = 1 / h_min;
          irho_ih_min_sq = ih_min * ih_min / pa_R q
      in pa_S gamma q * ih_min + 2.5 * pa_visc_coeff cfg gamma q * irho_ih_min_sq)"

text \<open>The update of the slot \<^verbatim>\<open>d_dt_est[eq]\<close>; here \<^verbatim>\<open>min_detJ\<close> is
  \<^verbatim>\<open>fmin(infinity, detJ)\<close>, the determinant of the point itself.\<close>

definition pa_dt_update :: "config \<Rightarrow> real \<Rightarrow> pa_qpoint \<Rightarrow> xreal \<Rightarrow> xreal" where
  "pa_dt_update cfg gamma q slot =
     (let min_detJ = fmin PInf (Fin (p_detJ q));
          idt = pa_idt cfg gamma q
      in if xless min_detJ (Fin 0.0) then Fin 0.0
         else if idt > 0.0 then fmin slot (Fin (cfg_cfl cfg / idt))
         else slot)"

definition pa_stressJiT :: "config \<Rightarrow> real \<Rightarrow> pa_qpoint \<Rightarrow> mat" where
  "pa_stressJiT cfg gamma q =
     mat_scale (p_weight q * p_detJ q)
       (mat_mult_ABt (cfg_dim cfg) (pa_stress cfg gamma q) (p_Jinv q))"

text \<open>\<^verbatim>\<open>d_tauJinvT[offset] = 0.0\<close> for every pair of components.\<close>

definition pa_tauJinvT :: "config \<Rightarrow> real \<Rightarrow> pa_qpoint \<Rightarrow> mat" where
  "pa_tauJinvT cfg gamma q = (\<lambda>vd gd. 0.0)"

text \<open>
  \<^verbatim>\<open>QUpdate::UpdateQuadratureData\<close>: every slot of \<^verbatim>\<open>q_dt_est\<close> starts from
  \<^verbatim>\<open>qdata.dt_est\<close>, the kernel updates each slot on its own, and \<^verbatim>\<open>q_dt_est.Min()\<close>
  (infinity for an empty vector) becomes the new \<^verbatim>\<open>qdata.dt_est\<close>.
\<close>

definition pa_slots :: "config \<Rightarrow> pa_zone list \<Rightarrow> xreal \<Rightarrow> xreal list" where
  "pa_slots cfg zones dt_est =
     concat (map (\<lambda>z. map (\<lambda>q. pa_dt_update cfg (pz_gamma z) q dt_est) (pz_pts z)) zones)"

definition vec_Min :: "xreal list \<Rightarrow> xreal" where
  "vec_Min xs = fold (\<lambda>x m. fmin m x) xs PInf"

definition pa_loop_dt :: "config \<Rightarrow> pa_zone list \<Rightarrow> xreal \<Rightarrow> xreal" where
  "pa_loop_dt cfg zones dt_est = vec_Min (pa_slots cfg zones dt_est)"

definition pa_loop_stressJinvT :: "config \<Rightarrow> pa_zone list \<Rightarrow> cache" where
  "pa_loop_stressJinvT cfg zones =
     map (\<lambda>z. map (pa_stressJiT cfg (pz_gamma z)) (pz_pts z)) zones"

definition pa_loop_tauJinvT :: "config \<Rightarrow> pa_zone list \<Rightarrow> cache" where
  "pa_loop_tauJinvT cfg zones =
     map (\<lambda>z. map (pa_tauJinvT cfg (pz_gamma z)) (pz_pts z)) zones"


section \<open>The rate evaluator \<^verbatim>\<open>LagrangianHydroOperator\<close>\<close>

text \<open>
  The monolithic \<^verbatim>\<open>BlockVector\<close> with its five blocks (offsets 0 to 5 in
  \<^verbatim>\<open>main\<close>): position, velocity, specific internal energy, stress, initial position. The
  rate vector \<^verbatim>\<open>dS_dt\<close> has the same layout.
\<close>

record blockvec =
  b_pos :: vec
  b_vel :: vec
  b_ener :: vec
  b_sig :: vec
  b_pos_ini :: vec

text \<open>
  The \<^verbatim>\<open>mutable\<close> members of the operator: the nodes the mesh currently points to,
  the freshness flag, the assembly flags, the running estimate \<^verbatim>\<open>qdata.dt_est\<close>, the
  two caches, the assembled force matrix (rows) and the counter \<^verbatim>\<open>timer.quad_tstep\<close>,
  which grows by \<^verbatim>\<open>NE\<close> with every recomputation of the quadrature data.
\<close>

record oper =
  o_mesh_nodes :: vec
  o_qdata_is_current :: bool
  o_forcemat_is_assembled :: bool
  o_gmat_is_assembled :: bool
  o_dt_est :: xreal
  o_stressJinvT :: cache
  o_tauJinvT :: cache
  o_Force :: "real list list"
  o_quad_tstep :: nat

text \<open>
  The collaborators of the operator that are outside the sources at hand (the finite
  element library and the linear solvers), as parameters: the evaluation of geometry and
  fields at the quadrature points (from the mesh nodes and the state for full assembly,
  from the state for partial assembly), the material law, the assembly of the force matrix
  from the stress cache, the partially assembled force operator and its transpose, the
  mass-weighted acceleration source, the two mass solves, the energy source and the
  element-wise projection of \<^verbatim>\<open>SolveStress\<close>.
\<close>

record env =
  e_cfg :: config
  e_material :: material
  e_fa_eval :: "vec \<Rightarrow> blockvec \<Rightarrow> zone list"
  e_pa_eval :: "blockvec \<Rightarrow> pa_zone list"
  e_Force_Assemble :: "cache \<Rightarrow> real list list"
  e_ForcePA_Mult :: "cache \<Rightarrow> vec \<Rightarrow> vec"
  e_ForcePA_MultTranspose :: "cache \<Rightarrow> vec \<Rightarrow> vec"
  e_one :: vec
  e_rhs_accel :: vec
  e_solve_velocity :: "vec \<Rightarrow> vec"
  e_source :: vec
  e_solve_energy :: "vec \<Rightarrow> vec"
  e_stress_projection :: "cache \<Rightarrow> vec"

text \<open>Vector operations of the library: \<^verbatim>\<open>add(v1, alpha, v2, v)\<close>, \<^verbatim>\<open>Neg()\<close>, the
  product of a matrix (list of rows) with a vector and with its transpose. The program
  applies them to vectors of equal size only.\<close>

definition vec_add :: "vec \<Rightarrow> real \<Rightarrow> vec \<Rightarrow> vec" where
  "vec_add v1 alpha v2 = map2 (\<lambda>a b. a + alpha * b) v1 v2"

definition vec_neg :: "vec \<Rightarrow> vec" where
  "vec_neg v = map uminus v"

definition Mult_rows :: "real list list \<Rightarrow> vec \<Rightarrow> vec" where
  "Mult_rows F x = map (\<lambda>row. sum_list (map2 (*) row x)) F"

definition MultTranspose_rows :: "real list list \<Rightarrow> vec \<Rightarrow> vec" where
  "MultTranspose_rows F x = Mult_rows (transpose F) x"

definition blockvec_add :: "blockvec \<Rightarrow> real \<Rightarrow> blockvec \<Rightarrow> blockvec" where
  "blockvec_add S0 alpha dS =
     \<lparr> b_pos = vec_add (b_pos S0) alpha (b_pos dS),
       b_vel = vec_add (b_vel S0) alpha (b_vel dS),
       b_ener = vec_add (b_ener S0) alpha (b_ener dS),
       b_sig = vec_add (b_sig S0) alpha (b_sig dS),
       b_pos_ini = vec_add (b_pos_ini S0) alpha (b_pos_ini dS) \<rparr>"

definition UpdateMesh :: "blockvec \<Rightarrow> oper \<Rightarrow> oper" where
  "UpdateMesh S op = op\<lparr>o_mesh_nodes := b_pos S\<rparr>"

text \<open>
  Modelled from the spec: \<^verbatim>\<open>ResetQuadratureData\<close> is defined in the header of the
  operator, which is not among the sources; the spec's explicit reset sets the freshness
  flag to false.
\<close>

definition ResetQuadratureData :: "oper \<Rightarrow> oper" where
  "ResetQuadratureData op = op\<lparr>o_qdata_is_current := False\<rparr>"

definition ResetTimeStepEstimate :: "oper \<Rightarrow> oper" where
  "ResetTimeStepEstimate op = op\<lparr>o_dt_est := PInf\<rparr>"

text \<open>\<^verbatim>\<open>UpdateQuadratureData(S, dt)\<close>: nothing when the flag is set; otherwise the
  partial assembly kernel in dimension two and three, the batched loop else.\<close>

definition UpdateQuadratureData :: "env \<Rightarrow> blockvec \<Rightarrow> real \<Rightarrow> oper \<Rightarrow> oper" where
  "UpdateQuadratureData env S dt op =
     (if o_qdata_is_current op then op
      else
        (let cfg = e_cfg env;
             op = op\<lparr>o_qdata_is_current := True,
                     o_forcemat_is_assembled := False,
                     o_gmat_is_assembled := False\<rparr>
         in if cfg_dim cfg > 1 \<and> cfg_p_assembly cfg then
              (let zones = e_pa_eval env S
               in op\<lparr>o_dt_est := pa_loop_dt cfg zones (o_dt_est op),
                      o_stressJinvT := pa_loop_stressJinvT cfg zones,
                      o_tauJinvT := pa_loop_tauJinvT cfg zones,
                      o_quad_tstep := o_quad_tstep op + cfg_NE cfg\<rparr>)
            else
              (let zones = e_fa_eval env (o_mesh_nodes op) S
               in op\<lparr>o_dt_est := fa_loop_dt cfg (e_material env) zones (o_dt_est op),
                      o_stressJinvT := fa_loop_stressJinvT cfg (e_material env) zones,
                      o_tauJinvT := fa_loop_tauJinvT cfg zones,
                      o_quad_tstep := o_quad_tstep op + cfg_NE cfg\<rparr>)))"

definition AssembleForceMatrix :: "env \<Rightarrow> oper \<Rightarrow> oper" where
  "AssembleForceMatrix env op =
     (if o_forcemat_is_assembled op \<or> cfg_p_assembly (e_cfg env) then op
      else op\<lparr>o_Force := e_Force_Assemble env (o_stressJinvT op),
              o_forcemat_is_assembled := True\<rparr>)"

text \<open>
  \<^verbatim>\<open>Getdamping\<close>: for every index of the velocity block the entry of \<^verbatim>\<open>_v_damping\<close>
  is overwritten; entries past the size of the velocity block are not touched.
\<close>

definition Getdamping :: "blockvec \<Rightarrow> vec \<Rightarrow> vec" where
  "Getdamping S v_damping =
     (let v = b_vel S
      in map (\<lambda>i. if i < length v
                   then (if v ! i \<ge> 0 then 0.00 * \<bar>v_damping ! i\<bar>
                         else - 0.00 * \<bar>v_damping ! i\<bar>)
                   else v_damping ! i)
             [0..<length v_damping])"

text \<open>The right-hand side \<^verbatim>\<open>rhs\<close> that \<^verbatim>\<open>SolveVelocity\<close> hands to the mass solve.\<close>

definition velocity_rhs :: "env \<Rightarrow> blockvec \<Rightarrow> oper \<Rightarrow> vec" where
  "velocity_rhs env S op =
     (let cfg = e_cfg env
      in if cfg_p_assembly cfg then
           (let rhs = e_ForcePA_Mult env (o_stressJinvT op) (e_one env);
                rhs = vec_neg rhs
            in if cfg_source_type cfg = 2 then vec_add rhs 1 (e_rhs_accel env) else rhs)
         else
           (let rhs = Mult_rows (o_Force op) (e_one env);
                rhs = vec_neg rhs;
                v_damping = map (\<lambda>x. 0.0) rhs;
                v_damping = vec_add v_damping 1.0 rhs;
                v_damping = Getdamping S v_damping;
                rhs = vec_add rhs (-1.0) v_damping
            in if cfg_source_type cfg = 2 then vec_add rhs 1 (e_rhs_accel env) else rhs))"

definition SolveVelocity :: "env \<Rightarrow> blockvec \<Rightarrow> blockvec \<Rightarrow> real \<Rightarrow> oper \<Rightarrow> oper \<times> blockvec" where
  "SolveVelocity env S dS_dt dt op =
     (let op = UpdateQuadratureData env S dt op;
          op = AssembleForceMatrix env op
      in (op, dS_dt\<lparr>b_vel := e_solve_velocity env (velocity_rhs env S op)\<rparr>))"

definition energy_rhs :: "env \<Rightarrow> vec \<Rightarrow> oper \<Rightarrow> vec" where
  "energy_rhs env v op =
     (let cfg = e_cfg env;
          e_rhs = (if cfg_p_assembly cfg
                   then e_ForcePA_MultTranspose env (o_stressJinvT op) v
                   else MultTranspose_rows (o_Force op) v)
      in if cfg_source_type cfg = 1 then vec_add e_rhs 1 (e_source env) else e_rhs)"

definition SolveEnergy :: "env \<Rightarrow> blockvec \<Rightarrow> vec \<Rightarrow> blockvec \<Rightarrow> real \<Rightarrow> oper \<Rightarrow> oper \<times> blockvec" where
  "SolveEnergy env S v dS_dt dt op =
     (let op = UpdateQuadratureData env S dt op;
          op = AssembleForceMatrix env op
      in (op, dS_dt\<lparr>b_ener := e_solve_energy env (energy_rhs env v op)\<rparr>))"

text \<open>\<^verbatim>\<open>SolveStress\<close> writes the stress block of the rate in dimension two and three
  and nothing in dimension one.\<close>

definition SolveStress :: "env \<Rightarrow> blockvec \<Rightarrow> blockvec \<Rightarrow> real \<Rightarrow> oper \<Rightarrow> oper \<times> blockvec" where
  "SolveStress env S dS_dt dt op =
     (let op = UpdateQuadratureData env S dt op
      in if cfg_dim (e_cfg env) = 2 \<or> cfg_dim (e_cfg env) = 3
         then (op, dS_dt\<lparr>b_sig := e_stress_projection env (o_tauJinvT op)\<rparr>)
         else (op, dS_dt))"

text \<open>\<^verbatim>\<open>Mult(S, dS_dt, dt)\<close>\<close>

definition Mult :: "env \<Rightarrow> blockvec \<Rightarrow> blockvec \<Rightarrow> real \<Rightarrow> oper \<Rightarrow> oper \<times> blockvec" where
  "Mult env S dS_dt dt op =
     (let op = UpdateMesh S op;
          v = b_vel S;
          dS_dt = dS_dt\<lparr>b_pos := v\<rparr>;
          (op, dS_dt) = SolveVelocity env S dS_dt dt op;
          (op, dS_dt) = SolveEnergy env S v dS_dt dt op;
          op = op\<lparr>o_qdata_is_current := False\<rparr>
      in (op, dS_dt))"

text \<open>The collective \<^verbatim>\<open>MPI_Allreduce\<close> with \<^verbatim>\<open>MPI_MIN\<close>: the minimum of the value of
  this rank and the values the other ranks contribute.\<close>

definition MPI_Allreduce_MIN :: "xreal \<Rightarrow> xreal list \<Rightarrow> xreal" where
  "MPI_Allreduce_MIN mine others = fold (\<lambda>x m. fmin m x) others mine"

definition GetTimeStepEstimate :: "env \<Rightarrow> blockvec \<Rightarrow> real \<Rightarrow> xreal list \<Rightarrow> oper \<Rightarrow> oper \<times> xreal" where
  "GetTimeStepEstimate env S dt others op =
     (let op = UpdateMesh S op;
          op = UpdateQuadratureData env S dt op
      in (op, MPI_Allreduce_MIN (o_dt_est op) others))"

section \<open>The time integrator \<^verbatim>\<open>RK2AvgSolver\<close>\<close>

text \<open>One stage: velocity, averaged velocity \<open>V\<close>, energy, stress, then
  \<^verbatim>\<open>dx_dt = V\<close>.\<close>

definition RK2Avg_stage :: "env \<Rightarrow> blockvec \<Rightarrow> vec \<Rightarrow> blockvec \<Rightarrow> real \<Rightarrow> oper \<Rightarrow> oper \<times> blockvec" where
  "RK2Avg_stage env S v0 dS_dt dt op =
     (let op = UpdateMesh S op;
          (op, dS_dt) = SolveVelocity env S dS_dt dt op;
          V = vec_add v0 (0.5 * dt) (b_vel dS_dt);
          (op, dS_dt) = SolveEnergy env S V dS_dt dt op;
          (op, dS_dt) = SolveStress env S dS_dt dt op;
          dS_dt = dS_dt\<lparr>b_pos := V\<rparr>
      in (op, dS_dt))"

text \<open>\<^verbatim>\<open>RK2AvgSolver::Step(S, t, dt)\<close>; the rate vector \<^verbatim>\<open>dS_dt\<close> is a member of the
  solver and is threaded through.\<close>

definition RK2AvgSolver_Step ::
  "env \<Rightarrow> blockvec \<Rightarrow> real \<Rightarrow> real \<Rightarrow> blockvec \<Rightarrow> oper \<Rightarrow> oper \<times> blockvec \<times> real \<times> blockvec" where
  "RK2AvgSolver_Step env S t dt dS_dt op =
     (let S0 = S;
          v0 = b_vel S0;
          (op, dS_dt) = RK2Avg_stage env S v0 dS_dt dt op;
          S = blockvec_add S0 (0.5 * dt) dS_dt;
          op = ResetQuadratureData op;
          (op, dS_dt) = RK2Avg_stage env S v0 dS_dt dt op;
          S = blockvec_add S0 dt dS_dt;
          op = ResetQuadratureData op
      in (op, S, t + dt, dS_dt))"


section \<open>The adaptive step driver in \<^verbatim>\<open>main\<close>\<close>

record sim_param =
  sp_t_final :: real
  sp_max_tsteps :: int
  sp_visit :: bool
  sp_paraview :: bool

text \<open>
  The variables of the time loop: time and step size with their saved values, the step
  index \<^verbatim>\<open>ti\<close>, the counter \<^verbatim>\<open>steps\<close>, the two flags, the state and its snapshot, the
  plastic strain fields and their snapshots, the operator \<^verbatim>\<open>geo\<close>, the rate vector of the
  solver, and the (cycle, time) pairs saved so far by the VisIt and the ParaView
  collections.
\<close>

record driver =
  d_t :: real
  d_dt :: real
  d_t_old :: real
  d_dt_old :: real
  d_ti :: int
  d_steps :: int
  d_last_step :: bool
  d_mesh_changed :: bool
  d_S :: blockvec
  d_S_old :: blockvec
  d_p_gf :: vec
  d_p_gf_old :: vec
  d_ini_p_gf :: vec
  d_ini_p_old_gf :: vec
  d_geo :: oper
  d_dS_dt :: blockvec
  d_visit_dc :: "(int \<times> real) list"
  d_pd :: "(int \<times> real) list"

text \<open>How one pass through the body of the loop ends: \<^verbatim>\<open>MFEM_ABORT\<close>, \<^verbatim>\<open>continue\<close>
  after a rollback, or falling through to the rest of the body.\<close>

datatype outcome =
  is_Aborted: Aborted (the_driver: driver)
| is_Repeated: Repeated (the_driver: driver)
| is_Accepted: Accepted (the_driver: driver)

text \<open>The head of the body: clip the last step, take the snapshot, reset the estimate.\<close>

definition loop_head :: "sim_param \<Rightarrow> driver \<Rightarrow> driver" where
  "loop_head sp d =
     (let d = (if d_t d + d_dt d \<ge> sp_t_final sp
               then d\<lparr>d_dt := sp_t_final sp - d_t d, d_last_step := True\<rparr> else d);
          d = (if d_steps d = sp_max_tsteps sp then d\<lparr>d_last_step := True\<rparr> else d);
          d = d\<lparr>d_S_old := d_S d, d_t_old := d_t d,
                 d_p_gf_old := d_p_gf d, d_ini_p_old_gf := d_ini_p_gf d\<rparr>
      in d\<lparr>d_geo := ResetTimeStepEstimate (d_geo d)\<rparr>)"

text \<open>
  Return mapping, flattening and remeshing between the step and the step control are
  collaborators outside the core: from the step index, the step size \<^verbatim>\<open>dt\<close> (the remesh
  test reads it), the step size \<^verbatim>\<open>dt_old\<close> of the pass before (\<^verbatim>\<open>Returnmapping\<close> is
  called with it), the state and the plastic strain they give the new state and plastic
  strain and tell whether the mesh was changed.
\<close>

type_synonym post_step =
  "int \<Rightarrow> real \<Rightarrow> real \<Rightarrow> blockvec \<times> vec \<Rightarrow> (blockvec \<times> vec) \<times> bool"

text \<open>
  Modelled from the spec: \<^verbatim>\<open>main\<close> steps and queries an object \<^verbatim>\<open>geo\<close> of the class
  \<^verbatim>\<open>geodynamics::LagrangianGeoOperator\<close>, whose source is not among the files at hand.
  Following the specification (the Rate Evaluator of section 4.3 with its two-stage
  midpoint scheme, queried by the driver of section 4.4), \<^verbatim>\<open>ode_solver->Step\<close> is taken
  to be \<^verbatim>\<open>RK2AvgSolver::Step\<close> (the solver that \<^verbatim>\<open>main\<close> creates for
  \<^verbatim>\<open>ode_solver_type\<close> 7) on the operator of the sources and
  \<^verbatim>\<open>geo.GetTimeStepEstimate\<close> to be the estimate of that operator, reduced over this rank
  and the \<open>others\<close>. The rest is \<^verbatim>\<open>main\<close> as written: the collaborators, \<^verbatim>\<open>steps++\<close>,
  \<^verbatim>\<open>dt_old = dt\<close>. The length estimate and the output at the end of the body do not touch
  the variables modelled here.
\<close>

definition trial_step :: "env \<Rightarrow> post_step \<Rightarrow> xreal list \<Rightarrow> driver \<Rightarrow> xreal \<times> driver" where
  "trial_step env post others d =
     (let (op, S, t, dS) = RK2AvgSolver_Step env (d_S d) (d_t d) (d_dt d) (d_dS_dt d) (d_geo d);
          d = d\<lparr>d_geo := op, d_S := S, d_t := t, d_dS_dt := dS\<rparr>;
          ((S, p), remeshed) = post (d_ti d) (d_dt d) (d_dt_old d) (d_S d, d_p_gf d);
          d = d\<lparr>d_S := S, d_p_gf := p, d_mesh_changed := (d_mesh_changed d \<or> remeshed)\<rparr>;
          d = d\<lparr>d_steps := d_steps d + 1, d_dt_old := d_dt d\<rparr>;
          (op, dt_est) = GetTimeStepEstimate env (d_S d) (d_dt d) others (d_geo d)
      in (dt_est, d\<lparr>d_geo := op\<rparr>))"

text \<open>\<^verbatim>\<open>visit_dc.SetCycle(ti); visit_dc.SetTime(t); visit_dc.Save();\<close> and the same for
  ParaView, each under its switch.\<close>

definition save_checkpoints :: "sim_param \<Rightarrow> driver \<Rightarrow> driver" where
  "save_checkpoints sp d =
     (let d = (if sp_visit sp then d\<lparr>d_visit_dc := d_visit_dc d @ [(d_ti d, d_t d)]\<rparr> else d)
      in if sp_paraview sp then d\<lparr>d_pd := d_pd d @ [(d_ti d, d_t d)]\<rparr> else d)"

text \<open>The adaptive time step control.\<close>

definition adaptive_control :: "sim_param \<Rightarrow> xreal \<Rightarrow> driver \<Rightarrow> outcome" where
  "adaptive_control sp dt_est d =
     (if d_mesh_changed d then Accepted (d\<lparr>d_mesh_changed := False\<rparr>)
      else if xless dt_est (Fin (d_dt d)) then
        (let d = d\<lparr>d_dt := d_dt d * 0.50\<rparr>
         in if d_dt d < 1.0 / 10 ^ 38 then Aborted (save_checkpoints sp d)
            else
              (let d = d\<lparr>d_t := d_t_old d, d_S := d_S_old d,
                         d_p_gf := d_p_gf_old d, d_ini_p_gf := d_ini_p_old_gf d\<rparr>;
                   d = d\<lparr>d_geo := ResetQuadratureData (d_geo d)\<rparr>;
                   d = (if d_steps d < sp_max_tsteps sp then d\<lparr>d_last_step := False\<rparr> else d)
               in Repeated (d\<lparr>d_ti := d_ti d - 1\<rparr>)))
      else if xless (Fin (1.25 * d_dt d)) dt_est then Accepted (d\<lparr>d_dt := d_dt d * 1.02\<rparr>)
      else Accepted d)"

text \<open>The increment \<^verbatim>\<open>ti++\<close> of the \<^verbatim>\<open>for\<close> statement, which also follows
  \<^verbatim>\<open>continue\<close>.\<close>

definition for_increment :: "outcome \<Rightarrow> outcome" where
  "for_increment r =
     (case r of
        Aborted d \<Rightarrow> Aborted d
      | Repeated d \<Rightarrow> Repeated (d\<lparr>d_ti := d_ti d + 1\<rparr>)
      | Accepted d \<Rightarrow> Accepted (d\<lparr>d_ti := d_ti d + 1\<rparr>))"

text \<open>The test \<^verbatim>\<open>!last_step\<close> of the \<^verbatim>\<open>for\<close> statement: whether another pass follows.
  The statements of the body after the step control do not assign \<^verbatim>\<open>last_step\<close>.\<close>

definition loop_continues :: "outcome \<Rightarrow> bool" where
  "loop_continues r =
     (case r of
        Aborted d \<Rightarrow> False
      | Repeated d \<Rightarrow> \<not> d_last_step d
      | Accepted d \<Rightarrow> \<not> d_last_step d)"

definition iteration :: "sim_param \<Rightarrow> env \<Rightarrow> post_step \<Rightarrow> xreal list \<Rightarrow> driver \<Rightarrow> outcome" where
  "iteration sp env post others d =
     (let d = loop_head sp d;
          (dt_est, d) = trial_step env post others d
      in for_increment (adaptive_control sp dt_est d))"


section \<open>Notions used in the statements\<close>

text \<open>Some quadrature point of the mesh evaluated at state \<open>S\<close> has a negative Jacobian
  determinant (in the kernel the operator would run).\<close>

definition has_negative_detJ :: "env \<Rightarrow> blockvec \<Rightarrow> bool" where
  "has_negative_detJ env S =
     (if cfg_dim (e_cfg env) > 1 \<and> cfg_p_assembly (e_cfg env)
      then list_ex (\<lambda>z. list_ex (\<lambda>q. p_detJ q < 0) (pz_pts z)) (e_pa_eval env S)
      else list_ex (\<lambda>z. list_ex (\<lambda>q. q_detJ q < 0) (z_pts z)) (e_fa_eval env (b_pos S) S))"

text \<open>The stable step bound in the words of the specification:
  CFL factor / (sound speed / h_min + 2.5 viscosity / (density times the square of h_min)).\<close>

definition spec_dt_local :: "real \<Rightarrow> real \<Rightarrow> real \<Rightarrow> real \<Rightarrow> real \<Rightarrow> real" where
  "spec_dt_local cfl_factor sound_speed h_min viscosity density =
     cfl_factor / (sound_speed / h_min + 2.5 * viscosity / (density * h_min\<^sup>2))"

definition fa_bound :: "config \<Rightarrow> material \<Rightarrow> zone \<Rightarrow> qpoint \<Rightarrow> real" where
  "fa_bound cfg mp z q =
     spec_dt_local (cfg_cfl cfg) (fa_sound_speed mp z q) (q_sv q / cfg_h1order cfg)
       (fa_visc_coeff cfg mp z q) (fa_rho q)"

definition pa_bound :: "config \<Rightarrow> real \<Rightarrow> pa_qpoint \<Rightarrow> real" where
  "pa_bound cfg gamma q =
     spec_dt_local (cfg_cfl cfg) (pa_S gamma q) (p_sv q / cfg_h1order cfg)
       (pa_visc_coeff cfg gamma q) (pa_R q)"

text \<open>The bounds of all quadrature points of all zones at state \<open>S\<close>.\<close>

definition stable_bounds :: "env \<Rightarrow> blockvec \<Rightarrow> xreal list" where
  "stable_bounds env S =
     (if cfg_dim (e_cfg env) > 1 \<and> cfg_p_assembly (e_cfg env)
      then concat (map (\<lambda>z. map (\<lambda>q. Fin (pa_bound (e_cfg env) (pz_gamma z) q)) (pz_pts z))
                       (e_pa_eval env S))
      else concat (map (\<lambda>z. map (\<lambda>q. Fin (fa_bound (e_cfg env) (e_material env) z q)) (z_pts z))
                       (e_fa_eval env (b_pos S) S)))"

text \<open>Every quadrature point has positive density and positive inverse rate, on positive
  reference mass and integration weight.\<close>

definition points_regular :: "env \<Rightarrow> blockvec \<Rightarrow> bool" where
  "points_regular env S =
     (if cfg_dim (e_cfg env) > 1 \<and> cfg_p_assembly (e_cfg env)
      then list_all (\<lambda>z. list_all (\<lambda>q. 0 < pa_R q \<and> 0 < p_rho0DetJ0w q \<and> 0 < p_weight q
                                      \<and> 0 < pa_idt (e_cfg env) (pz_gamma z) q) (pz_pts z))
                    (e_pa_eval env S)
      else list_all (\<lambda>z. list_all (\<lambda>q. 0 < fa_rho q \<and> 0 < q_rho0DetJ0w q \<and> 0 < q_weight q
                                      \<and> 0 < fa_inv_dt (e_cfg env) (e_material env) z q) (z_pts z))
                    (e_fa_eval env (b_pos S) S))"

text \<open>The deviatoric stress rate in the words of the specification: 2 mu (strain rate)
  minus the isotropic part scaled by 2 mu / dim.\<close>

definition spec_deviatoric_rate :: "nat \<Rightarrow> real \<Rightarrow> mat \<Rightarrow> mat" where
  "spec_deviatoric_rate n mu srate =
     mat_add (mat_scale (2 * mu) srate) (- (2 * mu / real n) * mat_trace n srate) mat_identity"

section \<open>Concrete inputs\<close>

definition ex_state :: blockvec where
  "ex_state = \<lparr> b_pos = [0, 1], b_vel = [1, -1], b_ener = [1], b_sig = [0, 0, 0],
                b_pos_ini = [0, 1] \<rparr>"

definition ex_oper :: oper where
  "ex_oper = \<lparr> o_mesh_nodes = [0, 1], o_qdata_is_current = False,
               o_forcemat_is_assembled = False, o_gmat_is_assembled = False,
               o_dt_est = PInf, o_stressJinvT = [], o_tauJinvT = [], o_Force = [],
               o_quad_tstep = 0 \<rparr>"

text \<open>A driver state after a trial step of size \<open>dt\<close> from time 9, with the flag
  \<^verbatim>\<open>mesh_changed\<close> as given.\<close>

definition ex_driver :: "real \<Rightarrow> bool \<Rightarrow> driver" where
  "ex_driver dt mc =
     \<lparr> d_t = 9 + dt, d_dt = dt, d_t_old = 9, d_dt_old = dt, d_ti = 7, d_steps = 8,
       d_last_step = False, d_mesh_changed = mc, d_S = ex_state,
       d_S_old = ex_state\<lparr>b_vel := [0, 0]\<rparr>,
       d_p_gf = [0], d_p_gf_old = [0], d_ini_p_gf = [0], d_ini_p_old_gf = [0],
       d_geo = ex_oper\<lparr>o_qdata_is_current := True\<rparr>, d_dS_dt = ex_state,
       d_visit_dc = [], d_pd = [(0, 0)] \<rparr>"

definition ex_param :: sim_param where
  "ex_param = \<lparr> sp_t_final = 100, sp_max_tsteps = -1, sp_visit = True, sp_paraview = True \<rparr>"

definition ex_cfg :: config where
  "ex_cfg = \<lparr> cfg_dim = 2, cfg_NE = 1, cfg_p_assembly = False, cfg_use_viscosity = True,
              cfg_use_vorticity = False, cfg_cfl = 1 / 2, cfg_h0 = 1, cfg_h1order = 2,
              cfg_source_type = 0 \<rparr>"

text \<open>A quadrature point with unit weight, reference mass and length scales, with the given
  determinant, velocity gradient, first eigenvalue and stress component \<open>sxx\<close>.\<close>

definition ex_point :: "real \<Rightarrow> mat \<Rightarrow> real \<Rightarrow> real \<Rightarrow> qpoint" where
  "ex_point det G eig sxx =
     \<lparr> q_detJ = det, q_Jinv = mat_identity, q_sv = 1, q_weight = 1, q_rho0DetJ0w = 1,
       q_e = 1, q_sgrad_v = G, q_sxx = sxx, q_sxy = 0, q_sxz = 0, q_syy = 0, q_syz = 0,
       q_szz = 0, q_eig = eig, q_ph_dir_nl2 = 1, q_compr_dir_nl2 = 1 \<rparr>"

definition ex_zone :: "qpoint list \<Rightarrow> zone" where
  "ex_zone qs = \<lparr> z_gamma = 5 / 3, z_lambda = 1, z_mu = 1, z_pts = qs \<rparr>"


text \<open>A gamma law with a constant sound speed, and a material at rest with none.\<close>

definition ex_material :: material where
  "ex_material = (\<lambda>gamma rho e pmod. ((gamma - 1) * rho * e, 2))"

definition ex_material_silent :: material where
  "ex_material_silent = (\<lambda>gamma rho e pmod. (0, 0))"

text \<open>A mesh of one zone with one quadrature point whose Jacobian determinant is the
  signed distance of the two nodes; the force matrix has one row per velocity entry.\<close>

definition ex_env :: env where
  "ex_env =
     \<lparr> e_cfg = ex_cfg, e_material = ex_material,
       e_fa_eval = (\<lambda>nodes S. [ex_zone [ex_point (case nodes of [a, b] \<Rightarrow> b - a | _ \<Rightarrow> 1)
                                                    mat_zero 0 0]]),
       e_pa_eval = (\<lambda>S. []),
       e_Force_Assemble = (\<lambda>c. [[1], [2]]),
       e_ForcePA_Mult = (\<lambda>c v. [0, 0]),
       e_ForcePA_MultTranspose = (\<lambda>c v. [0]),
       e_one = [1],
       e_rhs_accel = [0, 0],
       e_solve_velocity = (\<lambda>rhs. rhs),
       e_source = [0],
       e_solve_energy = (\<lambda>rhs. rhs),
       e_stress_projection = (\<lambda>c. [1, 1, 1]) \<rparr>"

text \<open>The state with the two nodes swapped: the zone is inverted.\<close>

definition ex_inverted :: blockvec where
  "ex_inverted = ex_state\<lparr>b_pos := [1, 0]\<rparr>"

text \<open>A rate vector whose stress block holds the values of an earlier evaluation.\<close>

definition ex_rate :: blockvec where
  "ex_rate = \<lparr> b_pos = [0, 0], b_vel = [0, 0], b_ener = [0], b_sig = [7, 7, 7],
               b_pos_ini = [0, 0] \<rparr>"

text \<open>A point for the partial assembly kernel with the given determinant and energy, and
  the environment that runs that kernel on one zone with this point.\<close>

definition ex_pa_point :: "real \<Rightarrow> real \<Rightarrow> pa_qpoint" where
  "ex_pa_point det e =
     \<lparr> p_detJ = det, p_Jinv = mat_identity, p_sv = 1, p_weight = 1, p_rho0DetJ0w = 1,
       p_e = e, p_dV = mat_zero, p_eig = 0, p_ph_dir_nl2 = 1, p_compr_dir_nl2 = 1,
       p_tau0_scratch = mat_zero \<rparr>"

definition ex_env_pa :: env where
  "ex_env_pa =
     ex_env\<lparr> e_cfg := ex_cfg\<lparr>cfg_p_assembly := True\<rparr>,
             e_pa_eval := (\<lambda>S. [\<lparr> pz_gamma = 2, pz_pts = [ex_pa_point 1 2] \<rparr>]) \<rparr>"

text \<open>The collaborators between step and step control doing nothing.\<close>

definition ex_post :: post_step where
  "ex_post = (\<lambda>ti dt dt_old sp. (sp, False))"

text \<open>The full assembly environment whose one zone has a point with the identity as
  velocity gradient, and the one that adds an acceleration source.\<close>

definition ex_env_stretch :: env where
  "ex_env_stretch = ex_env\<lparr> e_fa_eval := (\<lambda>nodes S. [ex_zone [ex_point 1 mat_identity 1 0]]) \<rparr>"

definition ex_env_source :: env where
  "ex_env_source = ex_env\<lparr> e_cfg := ex_cfg\<lparr>cfg_source_type := 2\<rparr>, e_rhs_accel := [5, 5] \<rparr>"



section \<open>Properties of the driver\<close>

text \<open>
  C5. When the halved step size falls below the floor \<open>1e-38\<close> the pass ends in the fatal
  abort, and before it the VisIt and the ParaView collections are each saved (cycle
  \<open>ti\<close>, time \<open>t\<close>) when they are switched on. When the halved step size is at or above
  the floor the pass does not abort; an abort happens only on this path (mesh unchanged,
  estimate below the step taken, halved step below the floor).
\<close>

theorem step_collapse_aborts_after_flush:
  "(\<not> d_mesh_changed d \<and> xless dt_est (Fin (d_dt d)) \<and> d_dt d * 0.50 < 1.0 / 10 ^ 38 \<longrightarrow>
      is_Aborted (adaptive_control sp dt_est d)
      \<and> d_visit_dc (the_driver (adaptive_control sp dt_est d))
          = (if sp_visit sp then d_visit_dc d @ [(d_ti d, d_t d)] else d_visit_dc d)
      \<and> d_pd (the_driver (adaptive_control sp dt_est d))
          = (if sp_paraview sp then d_pd d @ [(d_ti d, d_t d)] else d_pd d))
   \<and> (\<not> d_dt d * 0.50 < 1.0 / 10 ^ 38 \<longrightarrow> \<not> is_Aborted (adaptive_control sp dt_est d))
   \<and> (is_Aborted (adaptive_control sp dt_est d) \<longrightarrow>
        \<not> d_mesh_changed d \<and> xless dt_est (Fin (d_dt d)) \<and> d_dt d * 0.50 < 1.0 / 10 ^ 38)"
  by (simp add: adaptive_control_def save_checkpoints_def Let_def)

theorem step_collapse_witness:
  "is_Aborted (adaptive_control ex_param (Fin 0) (ex_driver (1 / 10 ^ 38) False))
   \<and> d_visit_dc (the_driver (adaptive_control ex_param (Fin 0) (ex_driver (1 / 10 ^ 38) False)))
       = [(7, 9 + 1 / 10 ^ 38)]
   \<and> d_pd (the_driver (adaptive_control ex_param (Fin 0) (ex_driver (1 / 10 ^ 38) False)))
       = [(0, 0), (7, 9 + 1 / 10 ^ 38)]
   \<and> \<not> is_Aborted (adaptive_control ex_param (Fin 0) (ex_driver (2 / 10 ^ 38) False))"
  using step_collapse_aborts_after_flush [of "ex_driver (1 / 10 ^ 38) False" "Fin 0" ex_param]
        step_collapse_aborts_after_flush [of "ex_driver (2 / 10 ^ 38) False" "Fin 0" ex_param]
  by (simp add: ex_driver_def ex_param_def)


lemma trial_step_fields:
  "d_t (snd (trial_step env post others d)) = d_t d + d_dt d
   \<and> d_dt (snd (trial_step env post others d)) = d_dt d
   \<and> d_t_old (snd (trial_step env post others d)) = d_t_old d
   \<and> d_S_old (snd (trial_step env post others d)) = d_S_old d
   \<and> d_ti (snd (trial_step env post others d)) = d_ti d
   \<and> d_steps (snd (trial_step env post others d)) = d_steps d + 1"
  by (simp add: trial_step_def RK2AvgSolver_Step_def Let_def split: prod.splits)

lemma loop_head_fields:
  "d_t (loop_head sp d) = d_t d \<and> d_t_old (loop_head sp d) = d_t d
   \<and> d_S_old (loop_head sp d) = d_S d \<and> d_ti (loop_head sp d) = d_ti d
   \<and> d_steps (loop_head sp d) = d_steps d"
  by (simp add: loop_head_def Let_def)

text \<open>
  C2 (as amended). One pass of the loop is the head, the trial step and the step control;
  the trial step advances the time by the step size taken and counts the attempt in
  \<^verbatim>\<open>steps\<close>. When the mesh was changed during the step, the step is accepted with the
  step size unchanged and the flag is cleared. Otherwise the control is three-way: with the
  estimate below the step size taken, the step size is halved and, unless the halved
  size is below the floor (then the pass aborts), the snapshot of time, state and plastic
  strain is restored, the freshness flag is cleared, the step index is not advanced and
  the counter \<^verbatim>\<open>steps\<close> keeps the attempt; the flag \<^verbatim>\<open>last_step\<close> is cleared when
  \<^verbatim>\<open>steps\<close> is below \<^verbatim>\<open>max_tsteps\<close> and kept otherwise, and whenever it is false
  after the rollback the loop goes on and tries the same step index again; with the
  estimate above 1.25 times the step size taken, the step is accepted and the step size
  multiplied by 1.02; else the step is accepted with the step size unchanged.
\<close>

theorem adaptive_control_three_way:
  "iteration sp env post others d
     = for_increment (adaptive_control sp (fst (trial_step env post others (loop_head sp d)))
                                           (snd (trial_step env post others (loop_head sp d))))
   \<and> d_t (snd (trial_step env post others (loop_head sp d))) = d_t d + d_dt (loop_head sp d)
   \<and> d_dt (snd (trial_step env post others (loop_head sp d))) = d_dt (loop_head sp d)
   \<and> d_t_old (snd (trial_step env post others (loop_head sp d))) = d_t d
   \<and> d_S_old (snd (trial_step env post others (loop_head sp d))) = d_S d
   \<and> d_ti (snd (trial_step env post others (loop_head sp d))) = d_ti d
   \<and> d_steps (snd (trial_step env post others (loop_head sp d))) = d_steps d + 1
   \<and> (d_mesh_changed e \<longrightarrow>
        for_increment (adaptive_control sp dt_est e)
          = Accepted (e\<lparr>d_mesh_changed := False, d_ti := d_ti e + 1\<rparr>))
   \<and> (\<not> d_mesh_changed e \<and> xless dt_est (Fin (d_dt e)) \<and> \<not> d_dt e * 0.50 < 1.0 / 10 ^ 38 \<longrightarrow>
        is_Repeated (for_increment (adaptive_control sp dt_est e))
        \<and> d_dt (the_driver (for_increment (adaptive_control sp dt_est e))) = d_dt e * 0.50
        \<and> d_t (the_driver (for_increment (adaptive_control sp dt_est e))) = d_t_old e
        \<and> d_S (the_driver (for_increment (adaptive_control sp dt_est e))) = d_S_old e
        \<and> d_p_gf (the_driver (for_increment (adaptive_control sp dt_est e))) = d_p_gf_old e
        \<and> d_ini_p_gf (the_driver (for_increment (adaptive_control sp dt_est e))) = d_ini_p_old_gf e
        \<and> \<not> o_qdata_is_current (d_geo (the_driver (for_increment (adaptive_control sp dt_est e))))
        \<and> d_ti (the_driver (for_increment (adaptive_control sp dt_est e))) = d_ti e
        \<and> d_steps (the_driver (for_increment (adaptive_control sp dt_est e))) = d_steps e
        \<and> d_last_step (the_driver (for_increment (adaptive_control sp dt_est e)))
            = (d_last_step e \<and> \<not> d_steps e < sp_max_tsteps sp))
   \<and> (\<not> d_mesh_changed e \<and> xless dt_est (Fin (d_dt e)) \<and> \<not> d_dt e * 0.50 < 1.0 / 10 ^ 38
        \<and> (d_steps e < sp_max_tsteps sp \<or> \<not> d_last_step e) \<longrightarrow>
        loop_continues (for_increment (adaptive_control sp dt_est e)))
   \<and> (\<not> d_mesh_changed e \<and> xless dt_est (Fin (d_dt e)) \<and> d_dt e * 0.50 < 1.0 / 10 ^ 38 \<longrightarrow>
        is_Aborted (for_increment (adaptive_control sp dt_est e)))
   \<and> (\<not> d_mesh_changed e \<and> \<not> xless dt_est (Fin (d_dt e)) \<and> xless (Fin (1.25 * d_dt e)) dt_est \<longrightarrow>
        for_increment (adaptive_control sp dt_est e)
          = Accepted (e\<lparr>d_dt := d_dt e * 1.02, d_ti := d_ti e + 1\<rparr>))
   \<and> (\<not> d_mesh_changed e \<and> \<not> xless dt_est (Fin (d_dt e)) \<and> \<not> xless (Fin (1.25 * d_dt e)) dt_est \<longrightarrow>
        for_increment (adaptive_control sp dt_est e) = Accepted (e\<lparr>d_ti := d_ti e + 1\<rparr>))"
proof -
  have it: "iteration sp env post others d
     = for_increment (adaptive_control sp (fst (trial_step env post others (loop_head sp d)))
                                           (snd (trial_step env post others (loop_head sp d))))"
    by (simp add: iteration_def Let_def split: prod.splits)
  have ctl: "(d_mesh_changed e \<longrightarrow>
        for_increment (adaptive_control sp dt_est e)
          = Accepted (e\<lparr>d_mesh_changed := False, d_ti := d_ti e + 1\<rparr>))
   \<and> (\<not> d_mesh_changed e \<and> xless dt_est (Fin (d_dt e)) \<and> \<not> d_dt e * 0.50 < 1.0 / 10 ^ 38 \<longrightarrow>
        is_Repeated (for_increment (adaptive_control sp dt_est e))
        \<and> d_dt (the_driver (for_increment (adaptive_control sp dt_est e))) = d_dt e * 0.50
        \<and> d_t (the_driver (for_increment (adaptive_control sp dt_est e))) = d_t_old e
        \<and> d_S (the_driver (for_increment (adaptive_control sp dt_est e))) = d_S_old e
        \<and> d_p_gf (the_driver (for_increment (adaptive_control sp dt_est e))) = d_p_gf_old e
        \<and> d_ini_p_gf (the_driver (for_increment (adaptive_control sp dt_est e))) = d_ini_p_old_gf e
        \<and> \<not> o_qdata_is_current (d_geo (the_driver (for_increment (adaptive_control sp dt_est e))))
        \<and> d_ti (the_driver (for_increment (adaptive_control sp dt_est e))) = d_ti e
        \<and> d_steps (the_driver (for_increment (adaptive_control sp dt_est e))) = d_steps e
        \<and> d_last_step (the_driver (for_increment (adaptive_control sp dt_est e)))
            = (d_last_step e \<and> \<not> d_steps e < sp_max_tsteps sp))
   \<and> (\<not> d_mesh_changed e \<and> xless dt_est (Fin (d_dt e)) \<and> \<not> d_dt e * 0.50 < 1.0 / 10 ^ 38
        \<and> (d_steps e < sp_max_tsteps sp \<or> \<not> d_last_step e) \<longrightarrow>
        loop_continues (for_increment (adaptive_control sp dt_est e)))
   \<and> (\<not> d_mesh_changed e \<and> xless dt_est (Fin (d_dt e)) \<and> d_dt e * 0.50 < 1.0 / 10 ^ 38 \<longrightarrow>
        is_Aborted (for_increment (adaptive_control sp dt_est e)))
   \<and> (\<not> d_mesh_changed e \<and> \<not> xless dt_est (Fin (d_dt e)) \<and> xless (Fin (1.25 * d_dt e)) dt_est \<longrightarrow>
        for_increment (adaptive_control sp dt_est e)
          = Accepted (e\<lparr>d_dt := d_dt e * 1.02, d_ti := d_ti e + 1\<rparr>))
   \<and> (\<not> d_mesh_changed e \<and> \<not> xless dt_est (Fin (d_dt e)) \<and> \<not> xless (Fin (1.25 * d_dt e)) dt_est \<longrightarrow>
        for_increment (adaptive_control sp dt_est e) = Accepted (e\<lparr>d_ti := d_ti e + 1\<rparr>))"
    by (auto simp: adaptive_control_def for_increment_def loop_continues_def
          ResetQuadratureData_def Let_def)
  show ?thesis
    using it ctl trial_step_fields [of env post others "loop_head sp d"] loop_head_fields [of sp d]
    by simp
qed

theorem adaptive_control_witness:
  "for_increment (adaptive_control ex_param (Fin 0) (ex_driver 1 True))
     = Accepted ((ex_driver 1 True)\<lparr>d_mesh_changed := False, d_ti := 8\<rparr>)
   \<and> is_Repeated (for_increment (adaptive_control ex_param (Fin (1 / 2)) (ex_driver 1 False)))
   \<and> d_dt (the_driver (for_increment (adaptive_control ex_param (Fin (1 / 2)) (ex_driver 1 False)))) = 1 / 2
   \<and> d_t (the_driver (for_increment (adaptive_control ex_param (Fin (1 / 2)) (ex_driver 1 False)))) = 9
   \<and> d_ti (the_driver (for_increment (adaptive_control ex_param (Fin (1 / 2)) (ex_driver 1 False)))) = 7
   \<and> \<not> d_last_step (the_driver (for_increment (adaptive_control ex_param (Fin (1 / 2)) (ex_driver 1 False))))
   \<and> loop_continues (for_increment (adaptive_control ex_param (Fin (1 / 2)) (ex_driver 1 False)))
   \<and> is_Aborted (for_increment (adaptive_control ex_param (Fin 0) (ex_driver (1 / 10 ^ 38) False)))
   \<and> for_increment (adaptive_control ex_param (Fin 2) (ex_driver 1 False))
       = Accepted ((ex_driver 1 False)\<lparr>d_dt := 1.02, d_ti := 8\<rparr>)
   \<and> for_increment (adaptive_control ex_param (Fin (11 / 10)) (ex_driver 1 False))
       = Accepted ((ex_driver 1 False)\<lparr>d_ti := 8\<rparr>)"
  using adaptive_control_three_way [where e = "ex_driver 1 True" and dt_est = "Fin 0" and sp = ex_param]
        adaptive_control_three_way [where e = "ex_driver 1 False" and dt_est = "Fin (1 / 2)" and sp = ex_param]
        adaptive_control_three_way [where e = "ex_driver (1 / 10 ^ 38) False" and dt_est = "Fin 0" and sp = ex_param]
        adaptive_control_three_way [where e = "ex_driver 1 False" and dt_est = "Fin 2" and sp = ex_param]
        adaptive_control_three_way [where e = "ex_driver 1 False" and dt_est = "Fin (11 / 10)" and sp = ex_param]
  by (simp add: ex_driver_def)

text \<open>
  The claim C2 as stated fails when the mesh was changed during the step: the estimate
  1/2 is below the step size 1, yet the step is accepted, the step size is not halved and
  the time stays advanced.
\<close>

theorem adaptive_control_counterexample:
  "xless (Fin (1 / 2)) (Fin (d_dt (ex_driver 1 True)))
   \<and> adaptive_control ex_param (Fin (1 / 2)) (ex_driver 1 True)
       = Accepted ((ex_driver 1 True)\<lparr>d_mesh_changed := False\<rparr>)
   \<and> d_dt (ex_driver 1 True) = 1
   \<and> d_t (ex_driver 1 True) = 10 \<and> d_t_old (ex_driver 1 True) = 9"
  by (simp add: adaptive_control_def ex_driver_def)

text \<open>
  A rejected step that was the last one keeps the flag \<^verbatim>\<open>last_step\<close> when
  \<^verbatim>\<open>steps\<close> is not below \<^verbatim>\<open>max_tsteps\<close>, as with \<^verbatim>\<open>max_tsteps = -1\<close>: the pass
  halves the step size and rolls the time back to 9, and the loop ends there, on the
  restored state, without trying the step again.
\<close>

lemma rejected_last_step_ends_loop:
  "is_Repeated (for_increment (adaptive_control ex_param (Fin (1 / 2))
                  ((ex_driver 1 False)\<lparr>d_last_step := True\<rparr>)))
   \<and> d_t (the_driver (for_increment (adaptive_control ex_param (Fin (1 / 2))
             ((ex_driver 1 False)\<lparr>d_last_step := True\<rparr>)))) = 9
   \<and> \<not> loop_continues (for_increment (adaptive_control ex_param (Fin (1 / 2))
                          ((ex_driver 1 False)\<lparr>d_last_step := True\<rparr>)))"
  by (simp add: adaptive_control_def for_increment_def loop_continues_def ex_driver_def
        ex_param_def Let_def)

section \<open>Properties of the rate evaluator\<close>

subsection \<open>The freshness flag\<close>

lemma UpdateQuadratureData_current:
  "o_qdata_is_current op \<Longrightarrow> UpdateQuadratureData env S dt op = op"
  by (simp add: UpdateQuadratureData_def)

lemma UpdateQuadratureData_stale:
  "\<not> o_qdata_is_current op \<Longrightarrow>
     o_quad_tstep (UpdateQuadratureData env S dt op) = o_quad_tstep op + cfg_NE (e_cfg env)"
  by (simp add: UpdateQuadratureData_def Let_def)

lemma UpdateQuadratureData_sets_flag:
  "o_qdata_is_current (UpdateQuadratureData env S dt op)"
  by (simp add: UpdateQuadratureData_def Let_def)

lemma UpdateQuadratureData_count:
  "o_quad_tstep (UpdateQuadratureData env S dt op)
     = o_quad_tstep op + (if o_qdata_is_current op then 0 else cfg_NE (e_cfg env))"
  by (simp add: UpdateQuadratureData_current UpdateQuadratureData_stale)

lemma AssembleForceMatrix_keeps:
  "o_quad_tstep (AssembleForceMatrix env op) = o_quad_tstep op
   \<and> o_qdata_is_current (AssembleForceMatrix env op) = o_qdata_is_current op
   \<and> o_tauJinvT (AssembleForceMatrix env op) = o_tauJinvT op
   \<and> o_mesh_nodes (AssembleForceMatrix env op) = o_mesh_nodes op"
  by (simp add: AssembleForceMatrix_def)

lemma SolveVelocity_oper:
  "fst (SolveVelocity env S dS dt op) = AssembleForceMatrix env (UpdateQuadratureData env S dt op)"
  by (simp add: SolveVelocity_def Let_def)

lemma SolveEnergy_oper:
  "fst (SolveEnergy env S v dS dt op) = AssembleForceMatrix env (UpdateQuadratureData env S dt op)"
  by (simp add: SolveEnergy_def Let_def)

lemma SolveStress_oper:
  "fst (SolveStress env S dS dt op) = UpdateQuadratureData env S dt op"
  by (simp add: SolveStress_def Let_def)

lemma Mult_unfold:
  "Mult env S dS dt op =
     ((fst (SolveEnergy env S (b_vel S) (snd (SolveVelocity env S (dS\<lparr>b_pos := b_vel S\<rparr>) dt (UpdateMesh S op)))
              dt (fst (SolveVelocity env S (dS\<lparr>b_pos := b_vel S\<rparr>) dt (UpdateMesh S op)))))
        \<lparr>o_qdata_is_current := False\<rparr>,
      snd (SolveEnergy env S (b_vel S) (snd (SolveVelocity env S (dS\<lparr>b_pos := b_vel S\<rparr>) dt (UpdateMesh S op)))
              dt (fst (SolveVelocity env S (dS\<lparr>b_pos := b_vel S\<rparr>) dt (UpdateMesh S op)))))"
  by (simp add: Mult_def Let_def split: prod.splits)

lemma Mult_count:
  "o_quad_tstep (fst (Mult env S dS dt op))
     = o_quad_tstep op + (if o_qdata_is_current op then 0 else cfg_NE (e_cfg env))"
  by (simp add: Mult_unfold SolveEnergy_oper SolveVelocity_oper AssembleForceMatrix_keeps
        UpdateQuadratureData_count UpdateQuadratureData_sets_flag UpdateMesh_def)

lemma Mult_marks_stale: "\<not> o_qdata_is_current (fst (Mult env S dS dt op))"
  by (simp add: Mult_unfold)

lemma RK2Avg_stage_oper:
  "fst (RK2Avg_stage env S v0 dS dt op)
     = fst (SolveStress env S
              (snd (SolveEnergy env S (vec_add v0 (0.5 * dt) (b_vel (snd (SolveVelocity env S dS dt (UpdateMesh S op)))))
                      (snd (SolveVelocity env S dS dt (UpdateMesh S op))) dt
                      (fst (SolveVelocity env S dS dt (UpdateMesh S op)))))
              dt
              (fst (SolveEnergy env S (vec_add v0 (0.5 * dt) (b_vel (snd (SolveVelocity env S dS dt (UpdateMesh S op)))))
                      (snd (SolveVelocity env S dS dt (UpdateMesh S op))) dt
                      (fst (SolveVelocity env S dS dt (UpdateMesh S op))))))"
  by (simp add: RK2Avg_stage_def Let_def split: prod.splits)

lemma RK2Avg_stage_count:
  "o_quad_tstep (fst (RK2Avg_stage env S v0 dS dt op))
     = o_quad_tstep op + (if o_qdata_is_current op then 0 else cfg_NE (e_cfg env))"
  by (simp add: RK2Avg_stage_oper SolveStress_oper SolveEnergy_oper SolveVelocity_oper
        AssembleForceMatrix_keeps UpdateQuadratureData_count UpdateQuadratureData_sets_flag
        UpdateMesh_def)

text \<open>
  C6. \<^verbatim>\<open>UpdateQuadratureData\<close> returns the operator unchanged when the flag says the cache
  is current; otherwise it recomputes once (the counter \<^verbatim>\<open>timer.quad_tstep\<close> grows by
  \<^verbatim>\<open>NE\<close>) and sets the flag. Each of the velocity, energy and stress-rate sub-solves
  starts with this call. One evaluation of the rate (\<^verbatim>\<open>Mult\<close>, or one stage of the
  integrator with its three sub-solves) recomputes at most once, exactly once from a stale
  flag; \<^verbatim>\<open>Mult\<close> leaves the flag cleared, so the next \<^verbatim>\<open>Mult\<close> recomputes exactly once.
\<close>

theorem at_most_one_refresh_per_evaluation:
  "(o_qdata_is_current op \<longrightarrow> UpdateQuadratureData env S dt op = op)
   \<and> (\<not> o_qdata_is_current op \<longrightarrow>
        o_quad_tstep (UpdateQuadratureData env S dt op) = o_quad_tstep op + cfg_NE (e_cfg env))
   \<and> o_qdata_is_current (UpdateQuadratureData env S dt op)
   \<and> fst (SolveVelocity env S dS dt op) = AssembleForceMatrix env (UpdateQuadratureData env S dt op)
   \<and> fst (SolveEnergy env S v dS dt op) = AssembleForceMatrix env (UpdateQuadratureData env S dt op)
   \<and> fst (SolveStress env S dS dt op) = UpdateQuadratureData env S dt op
   \<and> o_quad_tstep (AssembleForceMatrix env op) = o_quad_tstep op
   \<and> o_qdata_is_current (AssembleForceMatrix env op) = o_qdata_is_current op
   \<and> o_quad_tstep (fst (Mult env S dS dt op))
       = o_quad_tstep op + (if o_qdata_is_current op then 0 else cfg_NE (e_cfg env))
   \<and> o_quad_tstep (fst (RK2Avg_stage env S v dS dt op))
       = o_quad_tstep op + (if o_qdata_is_current op then 0 else cfg_NE (e_cfg env))
   \<and> \<not> o_qdata_is_current (fst (Mult env S dS dt op))
   \<and> o_quad_tstep (fst (Mult env S' dS' dt' (fst (Mult env S dS dt op))))
       = o_quad_tstep (fst (Mult env S dS dt op)) + cfg_NE (e_cfg env)"
  using Mult_count [of env S' dS' dt' "fst (Mult env S dS dt op)"]
  by (simp add: UpdateQuadratureData_current UpdateQuadratureData_stale
        UpdateQuadratureData_sets_flag SolveVelocity_oper SolveEnergy_oper SolveStress_oper
        AssembleForceMatrix_keeps Mult_count RK2Avg_stage_count Mult_marks_stale)

theorem at_most_one_refresh_witness:
  "UpdateQuadratureData ex_env ex_state 1 (ex_oper\<lparr>o_qdata_is_current := True\<rparr>)
     = ex_oper\<lparr>o_qdata_is_current := True\<rparr>
   \<and> o_quad_tstep (UpdateQuadratureData ex_env ex_state 1 ex_oper) = 1
   \<and> o_quad_tstep (fst (Mult ex_env ex_state ex_rate 1 ex_oper)) = 1
   \<and> o_quad_tstep (fst (Mult ex_env ex_inverted ex_rate 1
                          (fst (Mult ex_env ex_state ex_rate 1 ex_oper)))) = 2"
  using at_most_one_refresh_per_evaluation
          [of "ex_oper\<lparr>o_qdata_is_current := True\<rparr>" ex_env ex_state 1]
        at_most_one_refresh_per_evaluation
          [of ex_oper ex_env ex_state 1 ex_rate "b_vel ex_state" ex_inverted ex_rate 1]
  by (simp add: ex_oper_def ex_env_def ex_cfg_def)

subsection \<open>The blocks of the rate\<close>

lemma SolveVelocity_rate:
  "b_sig (snd (SolveVelocity env S dS dt op)) = b_sig dS
   \<and> b_pos (snd (SolveVelocity env S dS dt op)) = b_pos dS"
  by (simp add: SolveVelocity_def Let_def)

lemma SolveEnergy_rate:
  "b_sig (snd (SolveEnergy env S v dS dt op)) = b_sig dS
   \<and> b_pos (snd (SolveEnergy env S v dS dt op)) = b_pos dS"
  by (simp add: SolveEnergy_def Let_def)

lemma Mult_leaves_stress_rate:
  "b_sig (snd (Mult env S dS dt op)) = b_sig dS
   \<and> b_pos (snd (Mult env S dS dt op)) = b_vel S
   \<and> o_mesh_nodes (fst (Mult env S dS dt op)) = b_pos S"
  by (simp add: Mult_unfold SolveVelocity_rate SolveEnergy_rate SolveEnergy_oper
        SolveVelocity_oper AssembleForceMatrix_keeps UpdateQuadratureData_def UpdateMesh_def
        Let_def)

lemma RK2Avg_stage_writes_stress_rate:
  "b_sig (snd (RK2Avg_stage env S v0 dS dt op))
     = (if cfg_dim (e_cfg env) = 2 \<or> cfg_dim (e_cfg env) = 3
        then e_stress_projection env (o_tauJinvT (fst (RK2Avg_stage env S v0 dS dt op)))
        else b_sig dS)"
  by (simp add: RK2Avg_stage_def SolveStress_def SolveVelocity_rate SolveEnergy_rate Let_def
        split: prod.splits)
     (metis SolveEnergy_rate SolveVelocity_rate snd_conv)

text \<open>
  C1. \<^verbatim>\<open>Mult\<close> synchronises the mesh nodes, copies the velocity into the position block
  of the rate, solves for velocity and energy and clears the flag, but it never calls
  \<^verbatim>\<open>SolveStress\<close>: at the input below the stress block of the rate still holds the old
  values 7, 7, 7 after \<^verbatim>\<open>Mult\<close>, while a stage of \<^verbatim>\<open>RK2AvgSolver::Step\<close> at the same
  input writes the projected stress rate 1, 1, 1 there.
\<close>

theorem Mult_omits_stress_rate_update:
  "b_sig (snd (Mult ex_env ex_state ex_rate 1 ex_oper)) = [7, 7, 7]
   \<and> b_sig ex_rate = [7, 7, 7]
   \<and> b_sig (snd (RK2Avg_stage ex_env ex_state (b_vel ex_state) ex_rate 1 ex_oper)) = [1, 1, 1]"
  by (simp add: Mult_leaves_stress_rate RK2Avg_stage_writes_stress_rate ex_rate_def ex_env_def
        ex_cfg_def)

subsection \<open>The damping term\<close>

lemma Getdamping_zero:
  "length d \<le> length (b_vel S) \<Longrightarrow> Getdamping S d = map (\<lambda>x. 0) d"
  by (rule nth_equalityI) (simp_all add: Getdamping_def Let_def)

lemma vec_add_zero: "vec_add rhs c (map (\<lambda>x. 0) rhs) = rhs"
  by (induction rhs) (simp_all add: vec_add_def)

lemma vec_add_onto_zero: "vec_add (map (\<lambda>x. 0) rhs) 1 rhs = rhs"
  by (induction rhs) (simp_all add: vec_add_def)

lemma velocity_rhs_no_damping:
  assumes "cfg_p_assembly (e_cfg env) \<or> length (o_Force op) = length (b_vel S)"
  shows "velocity_rhs env S op
           = (let rhs = vec_neg (if cfg_p_assembly (e_cfg env)
                                 then e_ForcePA_Mult env (o_stressJinvT op) (e_one env)
                                 else Mult_rows (o_Force op) (e_one env))
              in if cfg_source_type (e_cfg env) = 2 then vec_add rhs 1 (e_rhs_accel env) else rhs)"
proof (cases "cfg_p_assembly (e_cfg env)")
  case True
  then show ?thesis by (simp add: velocity_rhs_def Let_def)
next
  case False
  let ?rhs = "vec_neg (Mult_rows (o_Force op) (e_one env))"
  have len: "length ?rhs \<le> length (b_vel S)"
    using assms False by (simp add: vec_neg_def Mult_rows_def)
  have "Getdamping S (vec_add (map (\<lambda>x. 0) ?rhs) 1 ?rhs) = map (\<lambda>x. 0) ?rhs"
    using len by (simp add: vec_add_onto_zero Getdamping_zero)
  then have "vec_add ?rhs (- 1) (Getdamping S (vec_add (map (\<lambda>x. 0) ?rhs) 1 ?rhs)) = ?rhs"
    by (simp add: vec_add_zero)
  then show ?thesis
    using False by (simp add: velocity_rhs_def Let_def)
qed

lemma SolveVelocity_hands_rhs:
  "b_vel (snd (SolveVelocity env S dS dt op))
     = e_solve_velocity env (velocity_rhs env S (fst (SolveVelocity env S dS dt op)))"
  by (simp add: SolveVelocity_def Let_def)

lemma SolveVelocity_assembles:
  "\<not> cfg_p_assembly (e_cfg env) \<Longrightarrow> \<not> o_qdata_is_current op \<Longrightarrow>
   o_Force (fst (SolveVelocity env S dS dt op))
     = e_Force_Assemble env (o_stressJinvT (fst (SolveVelocity env S dS dt op)))"
  by (simp add: SolveVelocity_def AssembleForceMatrix_def UpdateQuadratureData_def Let_def)

lemma ex_Force:
  "o_Force (fst (SolveVelocity ex_env ex_state ex_rate 1 ex_oper)) = [[1], [2]]"
  by (simp add: SolveVelocity_assembles ex_env_def ex_oper_def ex_cfg_def)

lemma ex_source_Force:
  "o_Force (fst (SolveVelocity ex_env_source ex_state ex_rate 1 ex_oper)) = [[1], [2]]"
  by (simp add: SolveVelocity_assembles ex_env_source_def ex_env_def ex_oper_def ex_cfg_def)

text \<open>
  C10 (as amended). \<^verbatim>\<open>Getdamping\<close> overwrites every entry with zero (0.00 times the
  magnitude, with either sign). So, with a force matrix that has one row per velocity
  entry, the right-hand side that \<^verbatim>\<open>SolveVelocity\<close> hands to the mass solve, whose
  solution it stores in the velocity block of the rate, is minus the force operator
  applied to the vector of ones with no damping contribution, plus the acceleration source
  when the source type is 2; with any other source type it is exactly minus the force
  operator applied to the vector of ones. In full assembly on stale quadrature data the
  force operator is the one assembled from the stress cache of this refresh; in partial
  assembly there is no damping call at all.
\<close>

theorem damping_term_is_zero:
  assumes "cfg_p_assembly (e_cfg env)
           \<or> length (o_Force (fst (SolveVelocity env S dS dt op))) = length (b_vel S)"
  shows "(length d \<le> length (b_vel S) \<longrightarrow> Getdamping S d = map (\<lambda>x. 0) d)
         \<and> b_vel (snd (SolveVelocity env S dS dt op))
             = e_solve_velocity env
                 (let rhs = vec_neg
                              (if cfg_p_assembly (e_cfg env)
                               then e_ForcePA_Mult env
                                      (o_stressJinvT (fst (SolveVelocity env S dS dt op))) (e_one env)
                               else Mult_rows (o_Force (fst (SolveVelocity env S dS dt op)))
                                      (e_one env))
                  in if cfg_source_type (e_cfg env) = 2
                     then vec_add rhs 1 (e_rhs_accel env) else rhs)
         \<and> (cfg_source_type (e_cfg env) \<noteq> 2 \<longrightarrow>
              b_vel (snd (SolveVelocity env S dS dt op))
                = e_solve_velocity env
                    (vec_neg
                       (if cfg_p_assembly (e_cfg env)
                        then e_ForcePA_Mult env
                               (o_stressJinvT (fst (SolveVelocity env S dS dt op))) (e_one env)
                        else Mult_rows (o_Force (fst (SolveVelocity env S dS dt op)))
                               (e_one env))))
         \<and> (\<not> cfg_p_assembly (e_cfg env) \<and> \<not> o_qdata_is_current op \<longrightarrow>
              o_Force (fst (SolveVelocity env S dS dt op))
                = e_Force_Assemble env (o_stressJinvT (fst (SolveVelocity env S dS dt op))))"
proof -
  have g: "length d \<le> length (b_vel S) \<longrightarrow> Getdamping S d = map (\<lambda>x. 0) d"
    by (simp add: Getdamping_zero)
  have r: "b_vel (snd (SolveVelocity env S dS dt op))
             = e_solve_velocity env
                 (let rhs = vec_neg
                              (if cfg_p_assembly (e_cfg env)
                               then e_ForcePA_Mult env
                                      (o_stressJinvT (fst (SolveVelocity env S dS dt op))) (e_one env)
                               else Mult_rows (o_Force (fst (SolveVelocity env S dS dt op)))
                                      (e_one env))
                  in if cfg_source_type (e_cfg env) = 2
                     then vec_add rhs 1 (e_rhs_accel env) else rhs)"
    unfolding SolveVelocity_hands_rhs [of env S dS dt op]
    by (simp only: velocity_rhs_no_damping [OF assms])
  have s: "cfg_source_type (e_cfg env) \<noteq> 2 \<longrightarrow>
              b_vel (snd (SolveVelocity env S dS dt op))
                = e_solve_velocity env
                    (vec_neg
                       (if cfg_p_assembly (e_cfg env)
                        then e_ForcePA_Mult env
                               (o_stressJinvT (fst (SolveVelocity env S dS dt op))) (e_one env)
                        else Mult_rows (o_Force (fst (SolveVelocity env S dS dt op)))
                               (e_one env)))"
    unfolding r by (simp add: Let_def)
  have a: "\<not> cfg_p_assembly (e_cfg env) \<and> \<not> o_qdata_is_current op \<longrightarrow>
              o_Force (fst (SolveVelocity env S dS dt op))
                = e_Force_Assemble env (o_stressJinvT (fst (SolveVelocity env S dS dt op)))"
    by (simp add: SolveVelocity_assembles)
  show ?thesis using g r s a by blast
qed

theorem damping_term_witness:
  "length (o_Force (fst (SolveVelocity ex_env ex_state ex_rate 1 ex_oper))) = length (b_vel ex_state)
   \<and> Getdamping ex_state [3, -4] = [0, 0]
   \<and> cfg_source_type (e_cfg ex_env) \<noteq> 2
   \<and> b_vel (snd (SolveVelocity ex_env ex_state ex_rate 1 ex_oper)) = [-1, -2]
   \<and> o_Force (fst (SolveVelocity ex_env ex_state ex_rate 1 ex_oper))
       = e_Force_Assemble ex_env (o_stressJinvT (fst (SolveVelocity ex_env ex_state ex_rate 1 ex_oper)))"
proof -
  have h: "length (o_Force (fst (SolveVelocity ex_env ex_state ex_rate 1 ex_oper)))
             = length (b_vel ex_state)"
    unfolding ex_Force by (simp add: ex_state_def)
  have h': "cfg_p_assembly (e_cfg ex_env)
            \<or> length (o_Force (fst (SolveVelocity ex_env ex_state ex_rate 1 ex_oper)))
                = length (b_vel ex_state)"
    using h by blast
  have l: "length [3, - 4 :: real] \<le> length (b_vel ex_state)" by (simp add: ex_state_def)
  have c: "cfg_source_type (e_cfg ex_env) \<noteq> 2" by (simp add: ex_env_def ex_cfg_def)
  have p: "\<not> cfg_p_assembly (e_cfg ex_env) \<and> \<not> o_qdata_is_current ex_oper"
    by (simp add: ex_env_def ex_cfg_def ex_oper_def)
  note T = damping_term_is_zero [OF h', where d = "[3, -4]"]
  have g: "Getdamping ex_state [3, -4] = [0, 0]" using T l by simp
  have v: "b_vel (snd (SolveVelocity ex_env ex_state ex_rate 1 ex_oper))
             = e_solve_velocity ex_env
                 (vec_neg (if cfg_p_assembly (e_cfg ex_env)
                           then e_ForcePA_Mult ex_env
                                  (o_stressJinvT (fst (SolveVelocity ex_env ex_state ex_rate 1 ex_oper)))
                                  (e_one ex_env)
                           else Mult_rows (o_Force (fst (SolveVelocity ex_env ex_state ex_rate 1 ex_oper)))
                                  (e_one ex_env)))"
    using T c by blast
  have v': "b_vel (snd (SolveVelocity ex_env ex_state ex_rate 1 ex_oper)) = [-1, -2]"
    unfolding v ex_Force by (simp add: ex_env_def ex_cfg_def vec_neg_def Mult_rows_def)
  have f: "o_Force (fst (SolveVelocity ex_env ex_state ex_rate 1 ex_oper))
       = e_Force_Assemble ex_env (o_stressJinvT (fst (SolveVelocity ex_env ex_state ex_rate 1 ex_oper)))"
    using T p by blast
  show ?thesis using h g c v' f by blast
qed

text \<open>
  The claim C10 as stated fails with the source type 2: the force operator applied to the
  vector of ones is (1, 2) and the acceleration source is (5, 5), so the right-hand side
  solved is (4, 3) and not minus the force operator applied to the vector of ones, which
  is (-1, -2).
\<close>

theorem damping_term_counterexample:
  "length (o_Force (fst (SolveVelocity ex_env_source ex_state ex_rate 1 ex_oper)))
     = length (b_vel ex_state)
   \<and> b_vel (snd (SolveVelocity ex_env_source ex_state ex_rate 1 ex_oper)) = [4, 3]
   \<and> e_solve_velocity ex_env_source
       (vec_neg (Mult_rows (o_Force (fst (SolveVelocity ex_env_source ex_state ex_rate 1 ex_oper)))
                   (e_one ex_env_source))) = [-1, -2]"
proof -
  have h: "length (o_Force (fst (SolveVelocity ex_env_source ex_state ex_rate 1 ex_oper)))
             = length (b_vel ex_state)"
    unfolding ex_source_Force by (simp add: ex_state_def)
  have h': "cfg_p_assembly (e_cfg ex_env_source)
            \<or> length (o_Force (fst (SolveVelocity ex_env_source ex_state ex_rate 1 ex_oper)))
                = length (b_vel ex_state)"
    using h by blast
  have v: "b_vel (snd (SolveVelocity ex_env_source ex_state ex_rate 1 ex_oper)) = [4, 3]"
    unfolding SolveVelocity_hands_rhs [of ex_env_source ex_state ex_rate 1 ex_oper]
              velocity_rhs_no_damping [OF h'] ex_source_Force
    by (simp add: ex_env_source_def ex_env_def ex_cfg_def vec_neg_def Mult_rows_def vec_add_def
          Let_def)
  have w: "e_solve_velocity ex_env_source
       (vec_neg (Mult_rows (o_Force (fst (SolveVelocity ex_env_source ex_state ex_rate 1 ex_oper)))
                   (e_one ex_env_source))) = [-1, -2]"
    unfolding ex_source_Force
    by (simp add: ex_env_source_def ex_env_def vec_neg_def Mult_rows_def)
  show ?thesis using h v w by blast
qed

section \<open>Properties of the stable step estimate\<close>

subsection \<open>The minimum on extended values\<close>

lemma fmin_zero_nonneg: "\<not> xless x (Fin 0) \<Longrightarrow> fmin (Fin 0) x = Fin 0"
  by (cases x) auto

lemma fmin_nonneg: "\<not> xless x (Fin 0) \<Longrightarrow> \<not> xless y (Fin 0) \<Longrightarrow> \<not> xless (fmin x y) (Fin 0)"
  by (cases x; cases y) auto

lemma fmin_commute: "fmin x y = fmin y x"
  by (cases x; cases y) (auto simp: min.commute)

lemma fmin_assoc: "fmin (fmin x y) z = fmin x (fmin y z)"
  by (cases x; cases y; cases z) (auto simp: min.assoc)

lemma fmin_PInf_right: "fmin x PInf = x"
  by (cases x) auto

lemma xless_fmin_zero: "xless (fmin m x) (Fin 0) \<longleftrightarrow> xless m (Fin 0) \<or> xless x (Fin 0)"
  by (cases m; cases x) auto

lemma fa_dt_update_zero:
  "0 \<le> cfg_cfl cfg \<Longrightarrow> fa_dt_update cfg mp m z q (Fin 0) = Fin 0"
  by (simp add: fa_dt_update_def Let_def)

lemma fold_fa_dt_update_zero:
  "0 \<le> cfg_cfl cfg \<Longrightarrow> fold (fa_dt_update cfg mp m z) qs (Fin 0) = Fin 0"
  by (induction qs) (simp_all add: fa_dt_update_zero)

lemma fa_zone_dt_zero:
  "0 \<le> cfg_cfl cfg \<Longrightarrow> fa_zone_dt cfg mp m z (Fin 0) = Fin 0"
  by (simp add: fa_zone_dt_def fold_fa_dt_update_zero)

lemma fold_fa_zone_dt_zero:
  "0 \<le> cfg_cfl cfg \<Longrightarrow> fold (fa_zone_dt cfg mp m) zs (Fin 0) = Fin 0"
  by (induction zs) (simp_all add: fa_zone_dt_zero)

lemma fa_batch_dt_zero:
  "0 \<le> cfg_cfl cfg \<Longrightarrow> fa_batch_dt cfg mp zs (Fin 0) = Fin 0"
  by (simp add: fa_batch_dt_def fold_fa_zone_dt_zero)

lemma fold_fa_batch_dt_zero:
  "0 \<le> cfg_cfl cfg \<Longrightarrow> fold (fa_batch_dt cfg mp) bs (Fin 0) = Fin 0"
  by (induction bs) (simp_all add: fa_batch_dt_zero)

subsection \<open>The minimum determinant of a batch\<close>

lemma fold_min_detJ_neg:
  "xless (fold (\<lambda>q m. fmin m (Fin (q_detJ q))) qs m0) (Fin 0)
     \<longleftrightarrow> xless m0 (Fin 0) \<or> (\<exists>q\<in>set qs. q_detJ q < 0)"
  by (induction qs arbitrary: m0) (auto simp: xless_fmin_zero)

lemma batch_min_detJ_neg:
  "xless (batch_min_detJ zs) (Fin 0) \<longleftrightarrow> (\<exists>z\<in>set zs. \<exists>q\<in>set (z_pts z). q_detJ q < 0)"
  by (auto simp: batch_min_detJ_def fold_min_detJ_neg)

subsection \<open>A negative determinant forces the estimate to zero\<close>

lemma fold_fa_dt_update_forced:
  "xless m (Fin 0) \<Longrightarrow> qs \<noteq> [] \<Longrightarrow> fold (fa_dt_update cfg mp m z) qs d = Fin 0"
proof (induction qs arbitrary: d)
  case Nil
  then show ?case by simp
next
  case (Cons q qs)
  have step: "fa_dt_update cfg mp m z q d = Fin 0"
    using Cons.prems(1) by (simp add: fa_dt_update_def Let_def)
  show ?case
  proof (cases "qs = []")
    case True
    then show ?thesis using step by simp
  next
    case False
    then show ?thesis using Cons.IH [OF Cons.prems(1) False] by (simp add: step)
  qed
qed

lemma fa_zone_dt_forced:
  "xless m (Fin 0) \<Longrightarrow> fa_zone_dt cfg mp m z d = (if z_pts z = [] then d else Fin 0)"
  by (simp add: fa_zone_dt_def fold_fa_dt_update_forced)

lemma fold_fa_zone_dt_forced:
  "xless m (Fin 0) \<Longrightarrow> \<exists>z\<in>set zs. z_pts z \<noteq> [] \<Longrightarrow> fold (fa_zone_dt cfg mp m) zs d = Fin 0"
proof (induction zs arbitrary: d)
  case Nil
  then show ?case by simp
next
  case (Cons z zs)
  show ?case
  proof (cases "\<exists>z\<in>set zs. z_pts z \<noteq> []")
    case True
    then show ?thesis using Cons.IH [OF Cons.prems(1) True] by simp
  next
    case False
    then have all_empty: "\<forall>z\<in>set zs. z_pts z = []" by blast
    have rest: "fold (fa_zone_dt cfg mp m) zs d' = d'" for d'
      using all_empty by (induction zs arbitrary: d') (simp_all add: fa_zone_dt_forced Cons.prems(1))
    from False Cons.prems(2) have nonempty: "z_pts z \<noteq> []" by auto
    have "fold (fa_zone_dt cfg mp m) (z # zs) d = fold (fa_zone_dt cfg mp m) zs (fa_zone_dt cfg mp m z d)"
      by simp
    also have "\<dots> = fa_zone_dt cfg mp m z d" by (rule rest)
    also have "\<dots> = Fin 0" using nonempty by (simp add: fa_zone_dt_forced Cons.prems(1))
    finally show ?thesis .
  qed
qed

lemma fa_batch_dt_forced:
  assumes "\<exists>z\<in>set zs. \<exists>q\<in>set (z_pts z). q_detJ q < 0"
  shows "fa_batch_dt cfg mp zs d = Fin 0"
proof -
  have neg: "xless (batch_min_detJ zs) (Fin 0)"
    using assms by (simp add: batch_min_detJ_neg)
  from assms obtain z q where "z \<in> set zs" "q \<in> set (z_pts z)" by blast
  then have "z_pts z \<noteq> []" by auto
  with \<open>z \<in> set zs\<close> have "\<exists>z\<in>set zs. z_pts z \<noteq> []" by blast
  then show ?thesis
    unfolding fa_batch_dt_def by (rule fold_fa_zone_dt_forced [OF neg])
qed

lemma concat_batches3: "concat (batches3 zs) = zs"
  by (induction zs rule: batches3.induct) simp_all

lemma in_some_batch: "z \<in> set zs \<Longrightarrow> \<exists>b\<in>set (batches3 zs). z \<in> set b"
proof -
  assume "z \<in> set zs"
  then have "z \<in> set (concat (batches3 zs))" by (simp add: concat_batches3)
  then show ?thesis by auto
qed

lemma fold_fa_batch_dt_forced:
  "0 \<le> cfg_cfl cfg \<Longrightarrow> \<exists>b\<in>set bs. \<exists>z\<in>set b. \<exists>q\<in>set (z_pts z). q_detJ q < 0
    \<Longrightarrow> fold (fa_batch_dt cfg mp) bs d = Fin 0"
proof (induction bs arbitrary: d)
  case Nil
  then show ?case by simp
next
  case (Cons b bs)
  show ?case
  proof (cases "\<exists>z\<in>set b. \<exists>q\<in>set (z_pts z). q_detJ q < 0")
    case True
    then show ?thesis
      by (simp add: fa_batch_dt_forced fold_fa_batch_dt_zero Cons.prems(1))
  next
    case False
    with Cons.prems(2) have "\<exists>b\<in>set bs. \<exists>z\<in>set b. \<exists>q\<in>set (z_pts z). q_detJ q < 0"
      by auto
    then show ?thesis using Cons.IH [OF Cons.prems(1)] by simp
  qed
qed

lemma fa_loop_dt_forced:
  assumes "0 \<le> cfg_cfl cfg" and "\<exists>z\<in>set zones. \<exists>q\<in>set (z_pts z). q_detJ q < 0"
  shows "fa_loop_dt cfg mp zones d = Fin 0"
proof -
  from assms(2) obtain z where z: "z \<in> set zones" "\<exists>q\<in>set (z_pts z). q_detJ q < 0" by blast
  from in_some_batch [OF z(1)] obtain b where "b \<in> set (batches3 zones)" "z \<in> set b" by blast
  with z(2) have "\<exists>b\<in>set (batches3 zones). \<exists>z\<in>set b. \<exists>q\<in>set (z_pts z). q_detJ q < 0"
    by blast
  then show ?thesis
    unfolding fa_loop_dt_def by (rule fold_fa_batch_dt_forced [OF assms(1)])
qed


subsection \<open>Minimum of a vector and the collective minimum\<close>

lemma fold_fmin: "fold (\<lambda>x m. fmin m x) xs d = fmin d (vec_Min xs)"
proof -
  have gen: "fold (\<lambda>x m. fmin m x) xs (fmin d e) = fmin d (fold (\<lambda>x m. fmin m x) xs e)" for d e
    by (induction xs arbitrary: e) (simp_all add: fmin_assoc)
  show ?thesis
    using gen [of d PInf] by (simp add: vec_Min_def fmin_PInf_right)
qed

lemma vec_Min_append: "vec_Min (xs @ ys) = fmin (vec_Min xs) (vec_Min ys)"
proof -
  have "vec_Min (xs @ ys) = fold (\<lambda>x m. fmin m x) ys (vec_Min xs)"
    by (simp add: vec_Min_def)
  then show ?thesis by (simp add: fold_fmin)
qed

lemma vec_Min_Cons: "vec_Min (x # xs) = fmin x (vec_Min xs)"
  using vec_Min_append [of "[x]" xs] by (simp add: vec_Min_def)

lemma vec_Min_zero:
  "list_all (\<lambda>x. \<not> xless x (Fin 0)) xs \<Longrightarrow> Fin 0 \<in> set xs \<Longrightarrow> vec_Min xs = Fin 0"
proof (induction xs)
  case Nil
  then show ?case by simp
next
  case (Cons x xs)
  show ?case
  proof (cases "Fin 0 \<in> set xs")
    case True
    with Cons have "vec_Min xs = Fin 0" by simp
    moreover have "\<not> xless x (Fin 0)" using Cons.prems(1) by simp
    ultimately show ?thesis
      by (simp add: vec_Min_Cons fmin_commute [of x] fmin_zero_nonneg)
  next
    case False
    with Cons.prems(2) have x: "x = Fin 0" by simp
    have "\<not> xless (vec_Min xs) (Fin 0)"
      using Cons.prems(1)
    proof (induction xs)
      case Nil
      then show ?case by (simp add: vec_Min_def)
    next
      case (Cons y ys)
      then show ?case by (simp add: vec_Min_Cons fmin_nonneg)
    qed
    then show ?thesis by (simp add: x vec_Min_Cons fmin_zero_nonneg)
  qed
qed

lemma MPI_Allreduce_MIN_fmin: "MPI_Allreduce_MIN mine others = fmin mine (vec_Min others)"
  by (simp add: MPI_Allreduce_MIN_def fold_fmin)

lemma vec_Min_nonneg:
  "list_all (\<lambda>x. \<not> xless x (Fin 0)) xs \<Longrightarrow> \<not> xless (vec_Min xs) (Fin 0)"
  by (induction xs) (simp_all add: vec_Min_def [of "[]"] vec_Min_Cons fmin_nonneg)

lemma MPI_Allreduce_MIN_zero:
  "list_all (\<lambda>x. \<not> xless x (Fin 0)) others \<Longrightarrow> MPI_Allreduce_MIN (Fin 0) others = Fin 0"
  by (simp add: MPI_Allreduce_MIN_fmin fmin_zero_nonneg vec_Min_nonneg)

subsection \<open>Partial assembly: a negative determinant\<close>

lemma pa_dt_update_forced: "p_detJ q < 0 \<Longrightarrow> pa_dt_update cfg g q d = Fin 0"
  by (simp add: pa_dt_update_def Let_def)

lemma pa_dt_update_nonneg:
  "0 \<le> cfg_cfl cfg \<Longrightarrow> \<not> xless d (Fin 0) \<Longrightarrow> \<not> xless (pa_dt_update cfg g q d) (Fin 0)"
  by (cases d) (auto simp: pa_dt_update_def Let_def min_less_iff_disj divide_less_0_iff)

lemma pa_loop_dt_forced:
  assumes "0 \<le> cfg_cfl cfg" and "\<not> xless d (Fin 0)"
    and "\<exists>z\<in>set zones. \<exists>q\<in>set (pz_pts z). p_detJ q < 0"
  shows "pa_loop_dt cfg zones d = Fin 0"
proof -
  have "list_all (\<lambda>x. \<not> xless x (Fin 0)) (pa_slots cfg zones d)"
    using assms(1,2) by (auto simp: pa_slots_def list_all_iff pa_dt_update_nonneg)
  moreover have "Fin 0 \<in> set (pa_slots cfg zones d)"
  proof -
    from assms(3) obtain z q where zq: "z \<in> set zones" "q \<in> set (pz_pts z)" "p_detJ q < 0"
      by blast
    have "pa_dt_update cfg (pz_gamma z) q d = Fin 0" using zq(3) by (rule pa_dt_update_forced)
    then show ?thesis using zq(1,2) by (force simp: pa_slots_def)
  qed
  ultimately show ?thesis unfolding pa_loop_dt_def by (rule vec_Min_zero)
qed


subsection \<open>Points with positive density and inverse rate\<close>

lemma fa_detJ_pos:
  "0 < fa_rho q \<Longrightarrow> 0 < q_rho0DetJ0w q \<Longrightarrow> 0 < q_weight q \<Longrightarrow> 0 < q_detJ q"
  by (simp add: fa_rho_def zero_less_divide_iff zero_less_mult_iff)

lemma pa_detJ_pos:
  "0 < pa_R q \<Longrightarrow> 0 < p_rho0DetJ0w q \<Longrightarrow> 0 < p_weight q \<Longrightarrow> 0 < p_detJ q"
  by (simp add: pa_R_def zero_less_divide_iff zero_less_mult_iff)

lemma fa_bound_eq: "cfg_cfl cfg * (1.0 / fa_inv_dt cfg mp z q) = fa_bound cfg mp z q"
  by (simp add: fa_bound_def spec_dt_local_def fa_inv_dt_def fa_h_min_def power2_eq_square)

lemma pa_bound_eq: "cfg_cfl cfg / pa_idt cfg g q = pa_bound cfg g q"
  by (simp add: pa_bound_def spec_dt_local_def pa_idt_def Let_def power2_eq_square)

lemma fa_dt_update_regular:
  "\<not> xless m (Fin 0) \<Longrightarrow> 0 < fa_inv_dt cfg mp z q
     \<Longrightarrow> fa_dt_update cfg mp m z q d = fmin d (Fin (fa_bound cfg mp z q))"
  using fa_bound_eq [of cfg mp z q] by (simp add: fa_dt_update_def Let_def)

lemma fold_fa_dt_update_regular:
  "\<not> xless m (Fin 0) \<Longrightarrow> list_all (\<lambda>q. 0 < fa_inv_dt cfg mp z q) qs
     \<Longrightarrow> fold (fa_dt_update cfg mp m z) qs d
         = fmin d (vec_Min (map (\<lambda>q. Fin (fa_bound cfg mp z q)) qs))"
proof (induction qs arbitrary: d)
  case Nil
  then show ?case by (simp add: vec_Min_def fmin_PInf_right)
next
  case (Cons q qs)
  then show ?case
    by (simp add: fa_dt_update_regular vec_Min_Cons fmin_assoc)
qed

lemma fold_fa_zone_dt_regular:
  "\<not> xless m (Fin 0)
     \<Longrightarrow> list_all (\<lambda>z. list_all (\<lambda>q. 0 < fa_inv_dt cfg mp z q) (z_pts z)) zs
     \<Longrightarrow> fold (fa_zone_dt cfg mp m) zs d
         = fmin d (vec_Min (concat (map (\<lambda>z. map (\<lambda>q. Fin (fa_bound cfg mp z q)) (z_pts z)) zs)))"
proof (induction zs arbitrary: d)
  case Nil
  then show ?case by (simp add: vec_Min_def fmin_PInf_right)
next
  case (Cons z zs)
  then show ?case
    by (simp add: fa_zone_dt_def fold_fa_dt_update_regular vec_Min_append fmin_assoc)
qed

lemma fa_batch_dt_regular:
  assumes "list_all (\<lambda>z. list_all (\<lambda>q. 0 < q_detJ q \<and> 0 < fa_inv_dt cfg mp z q) (z_pts z)) zs"
  shows "fa_batch_dt cfg mp zs d
         = fmin d (vec_Min (concat (map (\<lambda>z. map (\<lambda>q. Fin (fa_bound cfg mp z q)) (z_pts z)) zs)))"
proof -
  have "\<not> (\<exists>z\<in>set zs. \<exists>q\<in>set (z_pts z). q_detJ q < 0)"
    using assms by (fastforce simp: list_all_iff)
  then have m: "\<not> xless (batch_min_detJ zs) (Fin 0)"
    by (simp add: batch_min_detJ_neg)
  have "list_all (\<lambda>z. list_all (\<lambda>q. 0 < fa_inv_dt cfg mp z q) (z_pts z)) zs"
    using assms by (simp add: list_all_iff)
  then show ?thesis
    unfolding fa_batch_dt_def by (rule fold_fa_zone_dt_regular [OF m])
qed

lemma fold_fa_batch_dt_regular:
  "list_all (\<lambda>b. list_all (\<lambda>z. list_all (\<lambda>q. 0 < q_detJ q \<and> 0 < fa_inv_dt cfg mp z q) (z_pts z)) b) bs
     \<Longrightarrow> fold (fa_batch_dt cfg mp) bs d
         = fmin d (vec_Min (concat (map (\<lambda>z. map (\<lambda>q. Fin (fa_bound cfg mp z q)) (z_pts z))
                                       (concat bs))))"
proof (induction bs arbitrary: d)
  case Nil
  then show ?case by (simp add: vec_Min_def fmin_PInf_right)
next
  case (Cons b bs)
  then show ?case
    by (simp add: fa_batch_dt_regular vec_Min_append fmin_assoc)
qed

lemma fa_loop_dt_regular:
  assumes "list_all (\<lambda>z. list_all (\<lambda>q. 0 < q_detJ q \<and> 0 < fa_inv_dt cfg mp z q) (z_pts z)) zones"
  shows "fa_loop_dt cfg mp zones d
         = fmin d (vec_Min (concat (map (\<lambda>z. map (\<lambda>q. Fin (fa_bound cfg mp z q)) (z_pts z)) zones)))"
proof -
  have "list_all (\<lambda>z. list_all (\<lambda>q. 0 < q_detJ q \<and> 0 < fa_inv_dt cfg mp z q) (z_pts z))
          (concat (batches3 zones))"
    using assms by (simp add: concat_batches3)
  then have "list_all (\<lambda>b. list_all (\<lambda>z. list_all (\<lambda>q. 0 < q_detJ q \<and> 0 < fa_inv_dt cfg mp z q)
                 (z_pts z)) b) (batches3 zones)"
    by (simp add: list_all_iff)
  from fold_fa_batch_dt_regular [OF this, of d] show ?thesis
    by (simp add: fa_loop_dt_def concat_batches3)
qed

lemma pa_dt_update_regular:
  "0 < p_detJ q \<Longrightarrow> 0 < pa_idt cfg g q
     \<Longrightarrow> pa_dt_update cfg g q d = fmin d (Fin (pa_bound cfg g q))"
  using pa_bound_eq [of cfg g q] by (simp add: pa_dt_update_def Let_def)

lemma vec_Min_map_fmin: "xs \<noteq> [] \<Longrightarrow> vec_Min (map (fmin d) xs) = fmin d (vec_Min xs)"
proof (induction xs)
  case Nil
  then show ?case by simp
next
  case (Cons x xs)
  show ?case
  proof (cases "xs = []")
    case True
    then show ?thesis by (simp add: vec_Min_def fmin_PInf_right)
  next
    case False
    have idem: "fmin d (fmin d y) = fmin d y" for y
      by (cases d; cases y) auto
    have "fmin (fmin d x) (fmin d (vec_Min xs)) = fmin d (fmin x (vec_Min xs))"
      by (cases d; cases x; cases "vec_Min xs") (auto simp: min.left_commute min.assoc)
    then show ?thesis using Cons.IH [OF False] by (simp add: vec_Min_Cons)
  qed
qed

lemma pa_loop_dt_regular:
  assumes "list_all (\<lambda>z. list_all (\<lambda>q. 0 < p_detJ q \<and> 0 < pa_idt cfg (pz_gamma z) q) (pz_pts z)) zones"
    and "concat (map pz_pts zones) \<noteq> []"
  shows "pa_loop_dt cfg zones d
         = fmin d (vec_Min (concat (map (\<lambda>z. map (\<lambda>q. Fin (pa_bound cfg (pz_gamma z) q)) (pz_pts z)) zones)))"
proof -
  let ?bs = "concat (map (\<lambda>z. map (\<lambda>q. Fin (pa_bound cfg (pz_gamma z) q)) (pz_pts z)) zones)"
  have "pa_slots cfg zones d = map (fmin d) ?bs"
    using assms(1)
    by (induction zones) (simp_all add: pa_slots_def pa_dt_update_regular list_all_iff)
  moreover have "?bs \<noteq> []" using assms(2) by (induction zones) auto
  ultimately show ?thesis by (simp add: pa_loop_dt_def vec_Min_map_fmin)
qed

subsection \<open>The estimate of the operator\<close>

lemma has_negative_detJ_fa:
  "\<not> (cfg_dim (e_cfg env) > 1 \<and> cfg_p_assembly (e_cfg env)) \<Longrightarrow>
   has_negative_detJ env S
     = (\<exists>z\<in>set (e_fa_eval env (b_pos S) S). \<exists>q\<in>set (z_pts z). q_detJ q < 0)"
  by (auto simp: has_negative_detJ_def list_ex_iff)

lemma has_negative_detJ_pa:
  "cfg_dim (e_cfg env) > 1 \<and> cfg_p_assembly (e_cfg env) \<Longrightarrow>
   has_negative_detJ env S = (\<exists>z\<in>set (e_pa_eval env S). \<exists>q\<in>set (pz_pts z). p_detJ q < 0)"
  by (auto simp: has_negative_detJ_def list_ex_iff)

lemma local_estimate_inverted:
  assumes "\<not> o_qdata_is_current op" and "0 \<le> cfg_cfl (e_cfg env)"
    and "\<not> xless (o_dt_est op) (Fin 0)" and "has_negative_detJ env S"
  shows "o_dt_est (UpdateQuadratureData env S dt (UpdateMesh S op)) = Fin 0"
proof (cases "cfg_dim (e_cfg env) > 1 \<and> cfg_p_assembly (e_cfg env)")
  case True
  then have "\<exists>z\<in>set (e_pa_eval env S). \<exists>q\<in>set (pz_pts z). p_detJ q < 0"
    using assms(4) by (simp add: has_negative_detJ_pa)
  then have "pa_loop_dt (e_cfg env) (e_pa_eval env S) (o_dt_est op) = Fin 0"
    by (rule pa_loop_dt_forced [OF assms(2,3)])
  then show ?thesis
    using True assms(1) by (auto simp: UpdateQuadratureData_def UpdateMesh_def Let_def)
next
  case False
  then have "\<exists>z\<in>set (e_fa_eval env (b_pos S) S). \<exists>q\<in>set (z_pts z). q_detJ q < 0"
    using assms(4) by (simp add: has_negative_detJ_fa)
  then have "fa_loop_dt (e_cfg env) (e_material env) (e_fa_eval env (b_pos S) S) (o_dt_est op) = Fin 0"
    by (rule fa_loop_dt_forced [OF assms(2)])
  then show ?thesis
    using False assms(1) by (auto simp: UpdateQuadratureData_def UpdateMesh_def Let_def)
qed

lemma global_estimate_inverted:
  assumes "\<not> o_qdata_is_current op" and "0 \<le> cfg_cfl (e_cfg env)"
    and "\<not> xless (o_dt_est op) (Fin 0)" and "has_negative_detJ env S"
    and "list_all (\<lambda>x. \<not> xless x (Fin 0)) others"
  shows "snd (GetTimeStepEstimate env S dt others op) = Fin 0"
  using local_estimate_inverted [OF assms(1-4), of dt] assms(5)
  by (simp add: GetTimeStepEstimate_def Let_def MPI_Allreduce_MIN_zero)

lemma zero_estimate_rejected:
  "\<not> d_mesh_changed d \<Longrightarrow> 0 < d_dt d \<Longrightarrow> \<not> is_Accepted (adaptive_control sp (Fin 0) d)"
  by (simp add: adaptive_control_def Let_def)

lemma local_estimate_regular:
  assumes "\<not> o_qdata_is_current op" and "points_regular env S" and "stable_bounds env S \<noteq> []"
  shows "o_dt_est (UpdateQuadratureData env S dt (UpdateMesh S op))
         = fmin (o_dt_est op) (vec_Min (stable_bounds env S))"
proof (cases "cfg_dim (e_cfg env) > 1 \<and> cfg_p_assembly (e_cfg env)")
  case True
  have reg: "list_all (\<lambda>z. list_all (\<lambda>q. 0 < p_detJ q \<and> 0 < pa_idt (e_cfg env) (pz_gamma z) q)
               (pz_pts z)) (e_pa_eval env S)"
    using assms(2) True by (auto simp: points_regular_def list_all_iff pa_detJ_pos)
  have ne: "concat (map pz_pts (e_pa_eval env S)) \<noteq> []"
    using assms(3) True by (auto simp: stable_bounds_def)
  show ?thesis
    using True assms(1) pa_loop_dt_regular [OF reg ne, of "o_dt_est op"]
    by (auto simp: UpdateQuadratureData_def UpdateMesh_def Let_def stable_bounds_def)
next
  case False
  have reg: "list_all (\<lambda>z. list_all (\<lambda>q. 0 < q_detJ q
               \<and> 0 < fa_inv_dt (e_cfg env) (e_material env) z q) (z_pts z))
               (e_fa_eval env (b_pos S) S)"
    using assms(2) False by (auto simp: points_regular_def list_all_iff fa_detJ_pos)
  show ?thesis
    using False assms(1) fa_loop_dt_regular [OF reg, of "o_dt_est op"]
    by (auto simp: UpdateQuadratureData_def UpdateMesh_def Let_def stable_bounds_def)
qed

lemma ex_bounds: "stable_bounds ex_env ex_state = [Fin (1 / 28)]"
  by (simp add: stable_bounds_def ex_env_def ex_cfg_def ex_state_def ex_zone_def ex_point_def
        fa_bound_def spec_dt_local_def fa_sound_speed_def ex_material_def fa_visc_coeff_def
        visc_formula_def smooth_step_01_def vorticity_coeff_def fa_rho_def Let_def
        power2_eq_square)

lemma ex_regular: "points_regular ex_env ex_state"
  by (simp add: points_regular_def ex_env_def ex_cfg_def ex_state_def ex_zone_def ex_point_def
        fa_inv_dt_def fa_h_min_def fa_sound_speed_def ex_material_def fa_visc_coeff_def
        visc_formula_def smooth_step_01_def vorticity_coeff_def fa_rho_def Let_def)

text \<open>
  C3 (as amended). When the quadrature data are stale, the CFL factor and the running
  estimate are not negative and some quadrature point of the mesh at state \<open>S\<close> has a
  negative Jacobian determinant, the estimate returned by \<^verbatim>\<open>GetTimeStepEstimate\<close> is
  exactly zero (the other ranks contributing values that are not negative), and the driver
  does not accept the step when the mesh was not changed during the step and the step
  size taken is positive.
\<close>

theorem inverted_element_forces_zero_estimate:
  assumes "\<not> o_qdata_is_current op" and "0 \<le> cfg_cfl (e_cfg env)"
    and "\<not> xless (o_dt_est op) (Fin 0)" and "has_negative_detJ env S"
    and "list_all (\<lambda>x. \<not> xless x (Fin 0)) others"
  shows "snd (GetTimeStepEstimate env S dt others op) = Fin 0
         \<and> (\<not> d_mesh_changed d \<and> 0 < d_dt d \<longrightarrow>
              \<not> is_Accepted (adaptive_control sp (snd (GetTimeStepEstimate env S dt others op)) d))"
  using global_estimate_inverted [OF assms, of dt] by (simp add: zero_estimate_rejected)

theorem inverted_element_witness:
  "has_negative_detJ ex_env ex_inverted
   \<and> snd (GetTimeStepEstimate ex_env ex_inverted 1 [Fin 1, PInf] ex_oper) = Fin 0
   \<and> \<not> is_Accepted (adaptive_control ex_param
          (snd (GetTimeStepEstimate ex_env ex_inverted 1 [Fin 1, PInf] ex_oper)) (ex_driver 1 False))"
proof -
  have h1: "\<not> o_qdata_is_current ex_oper" by (simp add: ex_oper_def)
  have h2: "0 \<le> cfg_cfl (e_cfg ex_env)" by (simp add: ex_env_def ex_cfg_def)
  have h3: "\<not> xless (o_dt_est ex_oper) (Fin 0)" by (simp add: ex_oper_def)
  have h4: "has_negative_detJ ex_env ex_inverted"
    by (simp add: has_negative_detJ_def ex_env_def ex_cfg_def ex_inverted_def ex_state_def
          ex_zone_def ex_point_def)
  have h5: "list_all (\<lambda>x. \<not> xless x (Fin 0)) [Fin 1, PInf]" by simp
  have h6: "\<not> d_mesh_changed (ex_driver 1 False) \<and> 0 < d_dt (ex_driver 1 False)"
    by (simp add: ex_driver_def)
  show ?thesis
    using inverted_element_forces_zero_estimate
            [OF h1 h2 h3 h4 h5, of 1 "ex_driver 1 False" ex_param] h4 h6
    by blast
qed

text \<open>
  The claim C3 as stated fails: the inverted zone gives the estimate zero, and the driver
  whose flag \<^verbatim>\<open>mesh_changed\<close> is set accepts the step of size 1 all the same.
\<close>

theorem inverted_element_counterexample:
  "has_negative_detJ ex_env ex_inverted
   \<and> snd (GetTimeStepEstimate ex_env ex_inverted 1 [] ex_oper) = Fin 0
   \<and> 0 < d_dt (ex_driver 1 True)
   \<and> adaptive_control ex_param (Fin 0) (ex_driver 1 True)
       = Accepted ((ex_driver 1 True)\<lparr>d_mesh_changed := False\<rparr>)"
proof -
  have neg: "has_negative_detJ ex_env ex_inverted"
    by (simp add: has_negative_detJ_def ex_env_def ex_cfg_def ex_inverted_def ex_state_def
          ex_zone_def ex_point_def)
  have "snd (GetTimeStepEstimate ex_env ex_inverted 1 [] ex_oper) = Fin 0"
    by (rule global_estimate_inverted [OF _ _ _ neg])
       (simp_all add: ex_oper_def ex_env_def ex_cfg_def)
  moreover have "adaptive_control ex_param (Fin 0) (ex_driver 1 True)
       = Accepted ((ex_driver 1 True)\<lparr>d_mesh_changed := False\<rparr>)"
    by (simp add: adaptive_control_def ex_driver_def)
  moreover have "0 < d_dt (ex_driver 1 True)" by (simp add: ex_driver_def)
  ultimately show ?thesis using neg by simp
qed

lemma ex_point_inv_dt:
  "fa_inv_dt ex_cfg ex_material (ex_zone []) (ex_point 1 mat_zero 0 0) = 14"
  by (simp add: fa_inv_dt_def fa_h_min_def fa_sound_speed_def ex_material_def fa_visc_coeff_def
        visc_formula_def smooth_step_01_def vorticity_coeff_def fa_rho_def ex_cfg_def ex_zone_def
        ex_point_def Let_def)

lemma ex_pa_point_idt: "pa_idt ex_cfg 2 (ex_pa_point 1 2) = 14"
  by (simp add: pa_idt_def pa_S_def pa_E_def pa_R_def pa_visc_coeff_def visc_formula_def
        smooth_step_01_def vorticity_coeff_def ex_cfg_def ex_pa_point_def Let_def)

lemma estimate_on_current_cache:
  "o_qdata_is_current cur \<Longrightarrow>
   snd (GetTimeStepEstimate env S dt others cur) = MPI_Allreduce_MIN (o_dt_est cur) others"
  by (simp add: GetTimeStepEstimate_def UpdateQuadratureData_def UpdateMesh_def Let_def)

text \<open>
  C4 (as amended). At a quadrature point with positive density and positive inverse rate
  the local bound is CFL factor / (sound speed / h_min + 2.5 viscosity / (density h_min
  squared)), with h_min the smallest singular value divided by the order. When every
  point is such a point, the estimate returned by \<^verbatim>\<open>GetTimeStepEstimate\<close> on stale
  quadrature data is the minimum, over the ranks, of the running estimate (the minimum
  over the refreshes since the last reset) and of this bound over all quadrature points
  of all zones; right after a reset, when the running estimate is infinite, it is the
  minimum of the bounds alone. On current quadrature data nothing is recomputed and the
  minimum over the ranks of the stored running estimate is returned.
\<close>

theorem stable_step_estimate_is_min_bound:
  assumes "\<not> o_qdata_is_current op" and "points_regular env S" and "stable_bounds env S \<noteq> []"
  shows "snd (GetTimeStepEstimate env S dt others op)
           = MPI_Allreduce_MIN (fmin (o_dt_est op) (vec_Min (stable_bounds env S))) others
         \<and> (o_dt_est op = PInf \<longrightarrow>
              snd (GetTimeStepEstimate env S dt others op)
                = MPI_Allreduce_MIN (vec_Min (stable_bounds env S)) others)
         \<and> (o_qdata_is_current cur \<longrightarrow>
              snd (GetTimeStepEstimate env S dt others cur)
                = MPI_Allreduce_MIN (o_dt_est cur) others)
         \<and> (\<not> xless m (Fin 0) \<and> 0 < fa_inv_dt cfg mp z q \<longrightarrow>
              fa_dt_update cfg mp m z q d
                = fmin d (Fin (spec_dt_local (cfg_cfl cfg) (fa_sound_speed mp z q)
                                 (q_sv q / cfg_h1order cfg) (fa_visc_coeff cfg mp z q) (fa_rho q))))
         \<and> (0 < p_detJ p \<and> 0 < pa_idt cfg g p \<longrightarrow>
              pa_dt_update cfg g p d
                = fmin d (Fin (spec_dt_local (cfg_cfl cfg) (pa_S g p)
                                 (p_sv p / cfg_h1order cfg) (pa_visc_coeff cfg g p) (pa_R p))))"
proof -
  have "snd (GetTimeStepEstimate env S dt others op)
           = MPI_Allreduce_MIN (fmin (o_dt_est op) (vec_Min (stable_bounds env S))) others"
    using local_estimate_regular [OF assms, of dt] by (simp add: GetTimeStepEstimate_def Let_def)
  moreover have "o_qdata_is_current cur \<longrightarrow>
              snd (GetTimeStepEstimate env S dt others cur)
                = MPI_Allreduce_MIN (o_dt_est cur) others"
    by (simp add: estimate_on_current_cache)
  moreover have "\<not> xless m (Fin 0) \<and> 0 < fa_inv_dt cfg mp z q \<longrightarrow>
              fa_dt_update cfg mp m z q d
                = fmin d (Fin (spec_dt_local (cfg_cfl cfg) (fa_sound_speed mp z q)
                                 (q_sv q / cfg_h1order cfg) (fa_visc_coeff cfg mp z q) (fa_rho q)))"
    using fa_dt_update_regular [of m cfg mp z q d] by (simp add: fa_bound_def)
  moreover have "0 < p_detJ p \<and> 0 < pa_idt cfg g p \<longrightarrow>
              pa_dt_update cfg g p d
                = fmin d (Fin (spec_dt_local (cfg_cfl cfg) (pa_S g p)
                                 (p_sv p / cfg_h1order cfg) (pa_visc_coeff cfg g p) (pa_R p)))"
    using pa_dt_update_regular [of p cfg g d] by (simp add: pa_bound_def)
  ultimately show ?thesis by simp
qed

theorem stable_step_estimate_witness:
  "points_regular ex_env ex_state
   \<and> stable_bounds ex_env ex_state = [Fin (1 / 28)]
   \<and> snd (GetTimeStepEstimate ex_env ex_state 1 [Fin 1, PInf] ex_oper) = Fin (1 / 28)
   \<and> snd (GetTimeStepEstimate ex_env ex_state 1 [Fin (1 / 100)] ex_oper) = Fin (1 / 100)
   \<and> snd (GetTimeStepEstimate ex_env ex_state 1 [Fin 1]
             (ex_oper\<lparr>o_qdata_is_current := True, o_dt_est := Fin 3\<rparr>)) = Fin 1
   \<and> fa_dt_update ex_cfg ex_material (Fin 1) (ex_zone []) (ex_point 1 mat_zero 0 0) (Fin 5)
       = Fin (1 / 28)
   \<and> pa_dt_update ex_cfg 2 (ex_pa_point 1 2) (Fin 5) = Fin (1 / 28)"
proof -
  let ?cur = "ex_oper\<lparr>o_qdata_is_current := True, o_dt_est := Fin 3\<rparr>"
  have h1: "\<not> o_qdata_is_current ex_oper" by (simp add: ex_oper_def)
  have h3: "stable_bounds ex_env ex_state \<noteq> []" by (simp add: ex_bounds)
  have h4: "o_dt_est ex_oper = PInf" by (simp add: ex_oper_def)
  have h5: "o_qdata_is_current ?cur" by simp
  have h6: "o_dt_est ?cur = Fin 3" by simp
  have p1: "\<not> xless (Fin 1) (Fin 0)
            \<and> 0 < fa_inv_dt ex_cfg ex_material (ex_zone []) (ex_point 1 mat_zero 0 0)"
    by (simp add: ex_point_inv_dt)
  have p2: "0 < p_detJ (ex_pa_point 1 2) \<and> 0 < pa_idt ex_cfg 2 (ex_pa_point 1 2)"
    by (simp add: ex_pa_point_idt) (simp add: ex_pa_point_def)
  have c: "cfg_cfl ex_cfg = 1 / 2" by (simp add: ex_cfg_def)
  have v1: "spec_dt_local (cfg_cfl ex_cfg)
              (fa_sound_speed ex_material (ex_zone []) (ex_point 1 mat_zero 0 0))
              (q_sv (ex_point 1 mat_zero 0 0) / cfg_h1order ex_cfg)
              (fa_visc_coeff ex_cfg ex_material (ex_zone []) (ex_point 1 mat_zero 0 0))
              (fa_rho (ex_point 1 mat_zero 0 0)) = 1 / 28"
  proof -
    have "fa_bound ex_cfg ex_material (ex_zone []) (ex_point 1 mat_zero 0 0)
            = cfg_cfl ex_cfg
              * (1.0 / fa_inv_dt ex_cfg ex_material (ex_zone []) (ex_point 1 mat_zero 0 0))"
      by (rule fa_bound_eq [symmetric])
    also have "\<dots> = 1 / 28" by (simp add: ex_point_inv_dt c)
    finally show ?thesis by (simp only: fa_bound_def)
  qed
  have v2: "spec_dt_local (cfg_cfl ex_cfg) (pa_S 2 (ex_pa_point 1 2))
              (p_sv (ex_pa_point 1 2) / cfg_h1order ex_cfg)
              (pa_visc_coeff ex_cfg 2 (ex_pa_point 1 2)) (pa_R (ex_pa_point 1 2)) = 1 / 28"
  proof -
    have "pa_bound ex_cfg 2 (ex_pa_point 1 2) = cfg_cfl ex_cfg / pa_idt ex_cfg 2 (ex_pa_point 1 2)"
      by (rule pa_bound_eq [symmetric])
    also have "\<dots> = 1 / 28" by (simp add: ex_pa_point_idt c)
    finally show ?thesis by (simp only: pa_bound_def)
  qed
  note T = stable_step_estimate_is_min_bound
             [OF h1 ex_regular h3,
              where dt = 1 and others = "[Fin 1, PInf]" and m = "Fin 1" and cfg = ex_cfg
                and mp = ex_material and z = "ex_zone []" and q = "ex_point 1 mat_zero 0 0"
                and d = "Fin 5" and p = "ex_pa_point 1 2" and g = 2 and cur = ?cur]
  note U = stable_step_estimate_is_min_bound
             [OF h1 ex_regular h3,
              where dt = 1 and others = "[Fin (1 / 100)]" and cur = ?cur]
  note V = stable_step_estimate_is_min_bound
             [OF h1 ex_regular h3, where dt = 1 and others = "[Fin 1]" and cur = ?cur]
  have g: "snd (GetTimeStepEstimate ex_env ex_state 1 [Fin 1, PInf] ex_oper)
             = MPI_Allreduce_MIN (vec_Min (stable_bounds ex_env ex_state)) [Fin 1, PInf]"
    using T h4 by blast
  have g': "snd (GetTimeStepEstimate ex_env ex_state 1 [Fin 1, PInf] ex_oper) = Fin (1 / 28)"
    unfolding g ex_bounds by (simp add: vec_Min_def MPI_Allreduce_MIN_def)
  have u: "snd (GetTimeStepEstimate ex_env ex_state 1 [Fin (1 / 100)] ex_oper)
             = MPI_Allreduce_MIN (vec_Min (stable_bounds ex_env ex_state)) [Fin (1 / 100)]"
    using U h4 by blast
  have u': "snd (GetTimeStepEstimate ex_env ex_state 1 [Fin (1 / 100)] ex_oper) = Fin (1 / 100)"
    unfolding u ex_bounds by (simp add: vec_Min_def MPI_Allreduce_MIN_def)
  have w: "snd (GetTimeStepEstimate ex_env ex_state 1 [Fin 1] ?cur)
             = MPI_Allreduce_MIN (o_dt_est ?cur) [Fin 1]"
    using V h5 by blast
  have w': "snd (GetTimeStepEstimate ex_env ex_state 1 [Fin 1] ?cur) = Fin 1"
    unfolding w h6 by (simp add: MPI_Allreduce_MIN_def)
  have f: "fa_dt_update ex_cfg ex_material (Fin 1) (ex_zone []) (ex_point 1 mat_zero 0 0) (Fin 5)
             = Fin (1 / 28)"
    using T p1 unfolding v1 by force
  have q: "pa_dt_update ex_cfg 2 (ex_pa_point 1 2) (Fin 5) = Fin (1 / 28)"
    using T p2 unfolding v2 by force
  show ?thesis using ex_regular ex_bounds g' u' w' f q by blast
qed

text \<open>
  The claim C4 as stated fails when the running estimate is below the bounds: with the
  running estimate 1/100 left by an earlier refresh and the only bound 1/28, the value
  returned is 1/100 and not the minimum of the bound over the quadrature points.
\<close>

theorem stable_step_estimate_counterexample:
  "\<not> o_qdata_is_current (ex_oper\<lparr>o_dt_est := Fin (1 / 100)\<rparr>)
   \<and> points_regular ex_env ex_state
   \<and> vec_Min (stable_bounds ex_env ex_state) = Fin (1 / 28)
   \<and> snd (GetTimeStepEstimate ex_env ex_state 1 [] (ex_oper\<lparr>o_dt_est := Fin (1 / 100)\<rparr>))
       = Fin (1 / 100)"
proof -
  let ?op = "ex_oper\<lparr>o_dt_est := Fin (1 / 100)\<rparr>"
  have h1: "\<not> o_qdata_is_current ?op" by (simp add: ex_oper_def)
  have h3: "stable_bounds ex_env ex_state \<noteq> []" by (simp add: ex_bounds)
  have m: "vec_Min (stable_bounds ex_env ex_state) = Fin (1 / 28)"
    by (simp add: ex_bounds vec_Min_def)
  have "o_dt_est (UpdateQuadratureData ex_env ex_state 1 (UpdateMesh ex_state ?op))
          = fmin (o_dt_est ?op) (vec_Min (stable_bounds ex_env ex_state))"
    by (rule local_estimate_regular [OF h1 ex_regular h3])
  then have "snd (GetTimeStepEstimate ex_env ex_state 1 [] ?op) = Fin (1 / 100)"
    by (simp add: GetTimeStepEstimate_def Let_def MPI_Allreduce_MIN_def m)
  then show ?thesis using h1 ex_regular m by blast
qed

section \<open>Properties of the kernel at a quadrature point\<close>

subsection \<open>Zero sound speed and zero viscosity\<close>

lemma visc_formula_silent: "visc_formula rho h 0 vc 0 = 0"
  by (simp add: visc_formula_def Let_def)

lemma ex_silent_speed:
  "fa_sound_speed ex_material_silent (ex_zone qs) (ex_point det G 0 sxx) = 0"
  by (simp add: fa_sound_speed_def ex_material_silent_def)

lemma fa_visc_silent:
  "fa_sound_speed mp z q = 0 \<Longrightarrow> q_eig q = 0 \<Longrightarrow> fa_visc_coeff cfg mp z q = 0"
  by (simp add: fa_visc_coeff_def visc_formula_silent Let_def)

lemma pa_visc_silent:
  "pa_S g p = 0 \<Longrightarrow> p_eig p = 0 \<Longrightarrow> pa_visc_coeff cfg g p = 0"
  by (simp add: pa_visc_coeff_def visc_formula_silent Let_def)

lemma ex_silent_visc:
  "fa_visc_coeff cfg ex_material_silent (ex_zone qs) (ex_point det G 0 sxx) = 0"
  by (rule fa_visc_silent [OF ex_silent_speed]) (simp add: ex_point_def)

lemma ex_silent_inv_dt:
  "fa_inv_dt cfg ex_material_silent (ex_zone qs) (ex_point det G 0 sxx) = 0"
  by (simp add: fa_inv_dt_def ex_silent_speed ex_silent_visc)

text \<open>
  C9 (as amended). At a quadrature point with zero sound speed and zero viscosity
  coefficient the inverse rate is zero (and the viscosity coefficient is zero when the
  sound speed and the compression eigenvalue are zero); the division by the inverse rate
  is evaluated only under the guard that it is positive, so in a batch (or at a point, in
  partial assembly) with no negative determinant the running minimum is left unchanged
  there; when only the viscosity coefficient vanishes and the wave term is positive, the
  bound is CFL factor times h_min / sound speed. In a batch with a negative determinant
  the estimate is set to zero instead.
\<close>

theorem zero_inverse_rate_leaves_estimate:
  "(fa_sound_speed mp z q = 0 \<and> fa_visc_coeff cfg mp z q = 0 \<longrightarrow> fa_inv_dt cfg mp z q = 0)
   \<and> (fa_sound_speed mp z q = 0 \<and> q_eig q = 0 \<longrightarrow> fa_visc_coeff cfg mp z q = 0)
   \<and> (\<not> xless m (Fin 0) \<and> \<not> 0 < fa_inv_dt cfg mp z q \<longrightarrow> fa_dt_update cfg mp m z q d = d)
   \<and> (\<not> xless m (Fin 0) \<and> fa_visc_coeff cfg mp z q = 0
        \<and> 0 < fa_sound_speed mp z q / fa_h_min cfg q \<longrightarrow>
        fa_dt_update cfg mp m z q d
          = fmin d (Fin (cfg_cfl cfg * (fa_h_min cfg q / fa_sound_speed mp z q))))
   \<and> (xless m (Fin 0) \<longrightarrow> fa_dt_update cfg mp m z q d = Fin 0)
   \<and> (pa_S g p = 0 \<and> pa_visc_coeff cfg g p = 0 \<longrightarrow> pa_idt cfg g p = 0)
   \<and> (pa_S g p = 0 \<and> p_eig p = 0 \<longrightarrow> pa_visc_coeff cfg g p = 0)
   \<and> (\<not> p_detJ p < 0 \<and> \<not> 0 < pa_idt cfg g p \<longrightarrow> pa_dt_update cfg g p d = d)
   \<and> (\<not> p_detJ p < 0 \<and> pa_visc_coeff cfg g p = 0
        \<and> 0 < pa_S g p / (p_sv p / cfg_h1order cfg) \<longrightarrow>
        pa_dt_update cfg g p d
          = fmin d (Fin (cfg_cfl cfg * ((p_sv p / cfg_h1order cfg) / pa_S g p))))
   \<and> (p_detJ p < 0 \<longrightarrow> pa_dt_update cfg g p d = Fin 0)"
proof -
  have c6b: "pa_S g p = 0 \<and> p_eig p = 0 \<longrightarrow> pa_visc_coeff cfg g p = 0"
    by (simp add: pa_visc_silent)
  have c1: "fa_sound_speed mp z q = 0 \<and> fa_visc_coeff cfg mp z q = 0 \<longrightarrow> fa_inv_dt cfg mp z q = 0"
    by (simp add: fa_inv_dt_def)
  have c2: "fa_sound_speed mp z q = 0 \<and> q_eig q = 0 \<longrightarrow> fa_visc_coeff cfg mp z q = 0"
    by (simp add: fa_visc_coeff_def visc_formula_silent Let_def)
  have c3: "\<not> xless m (Fin 0) \<and> \<not> 0 < fa_inv_dt cfg mp z q \<longrightarrow> fa_dt_update cfg mp m z q d = d"
    by (simp add: fa_dt_update_def Let_def)
  have c4: "\<not> xless m (Fin 0) \<and> fa_visc_coeff cfg mp z q = 0
        \<and> 0 < fa_sound_speed mp z q / fa_h_min cfg q \<longrightarrow>
        fa_dt_update cfg mp m z q d
          = fmin d (Fin (cfg_cfl cfg * (fa_h_min cfg q / fa_sound_speed mp z q)))"
    by (simp add: fa_dt_update_def fa_inv_dt_def Let_def)
  have c5: "xless m (Fin 0) \<longrightarrow> fa_dt_update cfg mp m z q d = Fin 0"
    by (simp add: fa_dt_update_def Let_def)
  have c6: "pa_S g p = 0 \<and> pa_visc_coeff cfg g p = 0 \<longrightarrow> pa_idt cfg g p = 0"
    by (simp add: pa_idt_def Let_def)
  have c7: "\<not> p_detJ p < 0 \<and> \<not> 0 < pa_idt cfg g p \<longrightarrow> pa_dt_update cfg g p d = d"
    by (simp add: pa_dt_update_def Let_def)
  have c8: "\<not> p_detJ p < 0 \<and> pa_visc_coeff cfg g p = 0
        \<and> 0 < pa_S g p / (p_sv p / cfg_h1order cfg) \<longrightarrow>
        pa_dt_update cfg g p d
          = fmin d (Fin (cfg_cfl cfg * ((p_sv p / cfg_h1order cfg) / pa_S g p)))"
    by (simp add: pa_dt_update_def pa_idt_def Let_def mult.commute)
  have c9: "p_detJ p < 0 \<longrightarrow> pa_dt_update cfg g p d = Fin 0"
    by (simp add: pa_dt_update_def Let_def)
  show ?thesis using c1 c2 c3 c4 c5 c6 c6b c7 c8 c9 by blast
qed

theorem zero_inverse_rate_witness:
  "fa_dt_update ex_cfg ex_material_silent (Fin 1) (ex_zone []) (ex_point 1 mat_zero 0 0) (Fin 5) = Fin 5
   \<and> fa_dt_update (ex_cfg\<lparr>cfg_use_viscosity := False\<rparr>) ex_material (Fin 1) (ex_zone [])
        (ex_point 1 mat_zero 0 0) (Fin 5) = Fin (1 / 8)
   \<and> fa_dt_update ex_cfg ex_material_silent (Fin (- 1)) (ex_zone []) (ex_point 1 mat_zero 0 0) (Fin 5)
       = Fin 0
   \<and> pa_dt_update ex_cfg 2 (ex_pa_point 1 0) (Fin 5) = Fin 5
   \<and> pa_dt_update (ex_cfg\<lparr>cfg_use_viscosity := False\<rparr>) 2 (ex_pa_point 1 2) (Fin 5) = Fin (1 / 8)
   \<and> pa_dt_update ex_cfg 2 (ex_pa_point (- 1) 0) (Fin 5) = Fin 0"
proof -
  let ?q = "ex_point 1 mat_zero 0 0"
  let ?off = "ex_cfg\<lparr>cfg_use_viscosity := False\<rparr>"
  have a1: "fa_sound_speed ex_material_silent (ex_zone []) ?q = 0" by (rule ex_silent_speed)
  have a2: "q_eig ?q = 0" by (simp add: ex_point_def)
  have a3: "\<not> xless (Fin 1) (Fin 0)" by simp
  have b1: "fa_visc_coeff ?off ex_material (ex_zone []) ?q = 0"
    by (simp add: fa_visc_coeff_def)
  have b2: "0 < fa_sound_speed ex_material (ex_zone []) ?q / fa_h_min ?off ?q"
    by (simp add: fa_sound_speed_def ex_material_def fa_h_min_def ex_point_def ex_cfg_def)
  have b3: "cfg_cfl ?off * (fa_h_min ?off ?q / fa_sound_speed ex_material (ex_zone []) ?q) = 1 / 8"
    by (simp add: fa_sound_speed_def ex_material_def fa_h_min_def ex_point_def ex_cfg_def)
  have c1: "xless (Fin (- 1)) (Fin 0)" by simp
  have d1: "pa_S 2 (ex_pa_point 1 0) = 0" by (simp add: pa_S_def pa_E_def ex_pa_point_def)
  have d2: "p_eig (ex_pa_point 1 0) = 0" by (simp add: ex_pa_point_def)
  have d3: "\<not> p_detJ (ex_pa_point 1 0) < 0" by (simp add: ex_pa_point_def)
  have e1: "pa_visc_coeff ?off 2 (ex_pa_point 1 2) = 0" by (simp add: pa_visc_coeff_def)
  have e2: "0 < pa_S 2 (ex_pa_point 1 2) / (p_sv (ex_pa_point 1 2) / cfg_h1order ?off)"
    by (simp add: pa_S_def pa_E_def ex_pa_point_def ex_cfg_def)
  have e3: "\<not> p_detJ (ex_pa_point 1 2) < 0" by (simp add: ex_pa_point_def)
  have e4: "cfg_cfl ?off * ((p_sv (ex_pa_point 1 2) / cfg_h1order ?off) / pa_S 2 (ex_pa_point 1 2))
            = 1 / 8"
    by (simp add: pa_S_def pa_E_def ex_pa_point_def ex_cfg_def)
  have f1: "p_detJ (ex_pa_point (- 1) 0) < 0" by (simp add: ex_pa_point_def)
  note A = zero_inverse_rate_leaves_estimate
             [of ex_material_silent "ex_zone []" ?q ex_cfg "Fin 1" "Fin 5" 2 "ex_pa_point 1 0"]
  note B = zero_inverse_rate_leaves_estimate
             [of ex_material "ex_zone []" ?q ?off "Fin 1" "Fin 5" 2 "ex_pa_point 1 2"]
  note C = zero_inverse_rate_leaves_estimate
             [of ex_material_silent "ex_zone []" ?q ex_cfg "Fin (- 1)" "Fin 5" 2 "ex_pa_point (- 1) 0"]
  have r1: "fa_dt_update ex_cfg ex_material_silent (Fin 1) (ex_zone []) ?q (Fin 5) = Fin 5"
    using A a1 a2 a3 by force
  have "fa_dt_update ?off ex_material (Fin 1) (ex_zone []) ?q (Fin 5)
          = fmin (Fin 5) (Fin (cfg_cfl ?off * (fa_h_min ?off ?q
                                 / fa_sound_speed ex_material (ex_zone []) ?q)))"
    using B b1 b2 a3 by blast
  then have r2: "fa_dt_update ?off ex_material (Fin 1) (ex_zone []) ?q (Fin 5) = Fin (1 / 8)"
    by (simp only: b3) simp
  have r3: "fa_dt_update ex_cfg ex_material_silent (Fin (- 1)) (ex_zone []) ?q (Fin 5) = Fin 0"
    using C c1 by blast
  have r4: "pa_dt_update ex_cfg 2 (ex_pa_point 1 0) (Fin 5) = Fin 5"
    using A d1 d2 d3 by force
  have "pa_dt_update ?off 2 (ex_pa_point 1 2) (Fin 5)
          = fmin (Fin 5) (Fin (cfg_cfl ?off * ((p_sv (ex_pa_point 1 2) / cfg_h1order ?off)
                                 / pa_S 2 (ex_pa_point 1 2))))"
    using B e1 e2 e3 by blast
  then have r5: "pa_dt_update ?off 2 (ex_pa_point 1 2) (Fin 5) = Fin (1 / 8)"
    by (simp only: e4) simp
  have r6: "pa_dt_update ex_cfg 2 (ex_pa_point (- 1) 0) (Fin 5) = Fin 0"
    using C f1 by blast
  show ?thesis using r1 r2 r3 r4 r5 r6 by blast
qed

text \<open>
  The claim C9 as stated fails at a point with zero sound speed and zero viscosity whose
  batch holds an inverted zone: the running minimum 5 is not left unchanged but set to 0.
\<close>

theorem zero_inverse_rate_counterexample:
  "fa_sound_speed ex_material_silent (ex_zone [ex_point 1 mat_zero 0 0]) (ex_point 1 mat_zero 0 0) = 0
   \<and> fa_visc_coeff ex_cfg ex_material_silent (ex_zone [ex_point 1 mat_zero 0 0])
        (ex_point 1 mat_zero 0 0) = 0
   \<and> batch_min_detJ [ex_zone [ex_point 1 mat_zero 0 0], ex_zone [ex_point (- 1) mat_zero 0 0]]
       = Fin (- 1)
   \<and> fa_dt_update ex_cfg ex_material_silent
        (batch_min_detJ [ex_zone [ex_point 1 mat_zero 0 0], ex_zone [ex_point (- 1) mat_zero 0 0]])
        (ex_zone [ex_point 1 mat_zero 0 0]) (ex_point 1 mat_zero 0 0) (Fin 5) = Fin 0"
proof -
  have m: "batch_min_detJ [ex_zone [ex_point 1 mat_zero 0 0], ex_zone [ex_point (- 1) mat_zero 0 0]]
       = Fin (- 1)"
    by (simp add: batch_min_detJ_def ex_zone_def ex_point_def)
  show ?thesis
    by (simp add: m ex_silent_speed ex_silent_visc fa_dt_update_def Let_def)
qed

subsection \<open>The stress and the stress rate written to the cache\<close>

lemma fa_tauJinvT_entry:
  "cfg_use_viscosity cfg \<Longrightarrow>
   fa_tauJinvT cfg z q i j
     = fa_rho q * q_weight q * q_detJ q *
         (2 * z_mu z * fa_srate q i j
          + (if i = j then 2 * z_lambda z * mat_trace (cfg_dim cfg) (fa_srate q) / real (cfg_dim cfg)
             else 0)
          + mat_mult (cfg_dim cfg) (fa_old_sig (cfg_dim cfg) q) (fa_spin q) i j
          - mat_mult (cfg_dim cfg) (fa_spin q) (fa_old_sig (cfg_dim cfg) q) i j)"
  by (simp add: fa_tauJinvT_def fa_tau0_def mat_scale_def mat_add_def mat_identity_def Let_def)

lemma fa_stress_entry:
  "cfg_use_viscosity cfg \<Longrightarrow>
   fa_stress cfg mp z q i j
     = fa_visc_coeff cfg mp z q * q_sgrad_v q i j + fa_old_sig (cfg_dim cfg) q i j"
  by (simp add: fa_stress_def mat_add_def mat_zero_def)

lemma pa_stress_entry:
  "pa_stress cfg g p i j
     = (if i = j then - pa_P g p else 0)
       + (if cfg_use_viscosity cfg then pa_visc_coeff cfg g p * pa_srate (cfg_dim cfg) p i j else 0)"
  by (simp add: pa_stress_def mat_add_def mat_scale_def mat_identity_def Let_def)

lemma sum_below_2: "(\<Sum>k<(2::nat). f k) = f 0 + f 1"
  by (simp add: numeral_2_eq_2)

lemma ex_identity_visc:
  "fa_visc_coeff ex_cfg ex_material (ex_zone []) (ex_point 1 mat_identity 1 0) = 2"
  by (simp add: fa_visc_coeff_def visc_formula_def smooth_step_01_def vorticity_coeff_def
        fa_sound_speed_def ex_material_def ex_cfg_def ex_point_def fa_rho_def Let_def)

lemma fa_tauJinvT_written:
  "cfg_use_viscosity cfg \<Longrightarrow>
   fa_tauJinvT cfg z q
     = (\<lambda>i j. fa_rho q * q_weight q * q_detJ q *
         (2 * z_mu z * fa_srate q i j
          + (if i = j then 2 * z_lambda z * mat_trace (cfg_dim cfg) (fa_srate q) / real (cfg_dim cfg)
             else 0)
          + mat_mult (cfg_dim cfg) (fa_old_sig (cfg_dim cfg) q) (fa_spin q) i j
          - mat_mult (cfg_dim cfg) (fa_spin q) (fa_old_sig (cfg_dim cfg) q) i j))"
  by (intro ext) (rule fa_tauJinvT_entry)

lemma fa_stressJiT_written:
  assumes "cfg_use_viscosity cfg"
  shows "fa_stressJiT cfg mp z q
     = mat_scale (q_weight q * q_detJ q)
         (mat_mult_ABt (cfg_dim cfg)
            (\<lambda>i j. fa_visc_coeff cfg mp z q * q_sgrad_v q i j + fa_old_sig (cfg_dim cfg) q i j)
            (q_Jinv q))"
proof -
  have "fa_stress cfg mp z q
          = (\<lambda>i j. fa_visc_coeff cfg mp z q * q_sgrad_v q i j + fa_old_sig (cfg_dim cfg) q i j)"
    by (intro ext) (rule fa_stress_entry [OF assms])
  then show ?thesis by (simp add: fa_stressJiT_def)
qed

lemma fa_written_off:
  "\<not> cfg_use_viscosity cfg \<Longrightarrow>
   fa_tauJinvT cfg z q = mat_zero \<and> fa_stressJiT cfg mp z q = mat_zero"
  by (intro conjI ext)
     (simp_all add: fa_tauJinvT_def fa_tau0_def fa_stressJiT_def fa_stress_def mat_scale_def
        mat_mult_ABt_def mat_zero_def)

lemma pa_stressJiT_written:
  "pa_stressJiT cfg g p
     = mat_scale (p_weight p * p_detJ p)
         (mat_mult_ABt (cfg_dim cfg)
            (\<lambda>i j. (if i = j then - pa_P g p else 0)
                   + (if cfg_use_viscosity cfg
                      then pa_visc_coeff cfg g p * pa_srate (cfg_dim cfg) p i j else 0))
            (p_Jinv p))"
proof -
  have "pa_stress cfg g p
          = (\<lambda>i j. (if i = j then - pa_P g p else 0)
                   + (if cfg_use_viscosity cfg
                      then pa_visc_coeff cfg g p * pa_srate (cfg_dim cfg) p i j else 0))"
    by (intro ext) (rule pa_stress_entry)
  then show ?thesis by (simp add: pa_stressJiT_def)
qed

lemma pa_tauJinvT_written: "pa_tauJinvT cfg g p = mat_zero"
  by (simp add: pa_tauJinvT_def mat_zero_def)

lemma fa_cache_written:
  "\<not> o_qdata_is_current op \<Longrightarrow> \<not> (1 < cfg_dim (e_cfg env) \<and> cfg_p_assembly (e_cfg env)) \<Longrightarrow>
   o_tauJinvT (UpdateQuadratureData env S dt op)
     = map (\<lambda>z. map (fa_tauJinvT (e_cfg env) z) (z_pts z)) (e_fa_eval env (o_mesh_nodes op) S)
   \<and> o_stressJinvT (UpdateQuadratureData env S dt op)
     = map (\<lambda>z. map (fa_stressJiT (e_cfg env) (e_material env) z) (z_pts z))
           (e_fa_eval env (o_mesh_nodes op) S)"
  by (auto simp: UpdateQuadratureData_def fa_loop_tauJinvT_def fa_loop_stressJinvT_def Let_def)

lemma pa_cache_written:
  "\<not> o_qdata_is_current op \<Longrightarrow> 1 < cfg_dim (e_cfg env) \<and> cfg_p_assembly (e_cfg env) \<Longrightarrow>
   o_tauJinvT (UpdateQuadratureData env S dt op)
     = map (\<lambda>z. map (pa_tauJinvT (e_cfg env) (pz_gamma z)) (pz_pts z)) (e_pa_eval env S)
   \<and> o_stressJinvT (UpdateQuadratureData env S dt op)
     = map (\<lambda>z. map (pa_stressJiT (e_cfg env) (pz_gamma z)) (pz_pts z)) (e_pa_eval env S)"
  by (auto simp: UpdateQuadratureData_def pa_loop_tauJinvT_def pa_loop_stressJinvT_def Let_def)

text \<open>
  C7 (as amended). A refresh of stale quadrature data writes, for every zone and every
  quadrature point, the following into the two caches of the operator. In full assembly
  with viscosity switched on the stress rate cache receives rho times weight times
  determinant times (2 mu (strain rate) + (2 lambda trace(strain rate) / dim) Identity
  + old stress times spin - spin times old stress), and the stress cache used for the
  force assembly receives weight times determinant times (viscosity coefficient times
  velocity gradient + old stress) times the transposed inverse Jacobian, without a
  pressure term; with viscosity switched off both caches receive zero. In partial
  assembly the stress rate cache receives zero and the stress cache receives weight times
  determinant times (-P Identity + viscosity coefficient times the symmetrised velocity
  gradient) times the transposed inverse Jacobian.
\<close>

theorem stress_rate_written_to_cache:
  "(\<not> o_qdata_is_current op \<and> \<not> (1 < cfg_dim (e_cfg env) \<and> cfg_p_assembly (e_cfg env))
    \<and> cfg_use_viscosity (e_cfg env) \<longrightarrow>
      o_tauJinvT (UpdateQuadratureData env S dt op)
        = map (\<lambda>z. map (\<lambda>q. (\<lambda>i j.
                 fa_rho q * q_weight q * q_detJ q *
                   (2 * z_mu z * fa_srate q i j
                    + (if i = j
                       then 2 * z_lambda z * mat_trace (cfg_dim (e_cfg env)) (fa_srate q)
                            / real (cfg_dim (e_cfg env))
                       else 0)
                    + mat_mult (cfg_dim (e_cfg env)) (fa_old_sig (cfg_dim (e_cfg env)) q)
                        (fa_spin q) i j
                    - mat_mult (cfg_dim (e_cfg env)) (fa_spin q)
                        (fa_old_sig (cfg_dim (e_cfg env)) q) i j)))
               (z_pts z))
            (e_fa_eval env (o_mesh_nodes op) S)
      \<and> o_stressJinvT (UpdateQuadratureData env S dt op)
          = map (\<lambda>z. map (\<lambda>q.
                   mat_scale (q_weight q * q_detJ q)
                     (mat_mult_ABt (cfg_dim (e_cfg env))
                        (\<lambda>i j. fa_visc_coeff (e_cfg env) (e_material env) z q * q_sgrad_v q i j
                               + fa_old_sig (cfg_dim (e_cfg env)) q i j)
                        (q_Jinv q)))
                 (z_pts z))
              (e_fa_eval env (o_mesh_nodes op) S))
   \<and> (\<not> o_qdata_is_current op \<and> \<not> (1 < cfg_dim (e_cfg env) \<and> cfg_p_assembly (e_cfg env))
      \<and> \<not> cfg_use_viscosity (e_cfg env) \<longrightarrow>
        o_tauJinvT (UpdateQuadratureData env S dt op)
          = map (\<lambda>z. map (\<lambda>q. mat_zero) (z_pts z)) (e_fa_eval env (o_mesh_nodes op) S)
        \<and> o_stressJinvT (UpdateQuadratureData env S dt op)
            = map (\<lambda>z. map (\<lambda>q. mat_zero) (z_pts z)) (e_fa_eval env (o_mesh_nodes op) S))
   \<and> (\<not> o_qdata_is_current op \<and> 1 < cfg_dim (e_cfg env) \<and> cfg_p_assembly (e_cfg env) \<longrightarrow>
        o_tauJinvT (UpdateQuadratureData env S dt op)
          = map (\<lambda>z. map (\<lambda>p. mat_zero) (pz_pts z)) (e_pa_eval env S)
        \<and> o_stressJinvT (UpdateQuadratureData env S dt op)
            = map (\<lambda>z. map (\<lambda>p.
                     mat_scale (p_weight p * p_detJ p)
                       (mat_mult_ABt (cfg_dim (e_cfg env))
                          (\<lambda>i j. (if i = j then - pa_P (pz_gamma z) p else 0)
                                 + (if cfg_use_viscosity (e_cfg env)
                                    then pa_visc_coeff (e_cfg env) (pz_gamma z) p
                                         * pa_srate (cfg_dim (e_cfg env)) p i j
                                    else 0))
                          (p_Jinv p)))
                   (pz_pts z))
                (e_pa_eval env S))"
proof -
  have on: "\<not> o_qdata_is_current op \<and> \<not> (1 < cfg_dim (e_cfg env) \<and> cfg_p_assembly (e_cfg env))
    \<and> cfg_use_viscosity (e_cfg env) \<longrightarrow>
      o_tauJinvT (UpdateQuadratureData env S dt op)
        = map (\<lambda>z. map (\<lambda>q. (\<lambda>i j.
                 fa_rho q * q_weight q * q_detJ q *
                   (2 * z_mu z * fa_srate q i j
                    + (if i = j
                       then 2 * z_lambda z * mat_trace (cfg_dim (e_cfg env)) (fa_srate q)
                            / real (cfg_dim (e_cfg env))
                       else 0)
                    + mat_mult (cfg_dim (e_cfg env)) (fa_old_sig (cfg_dim (e_cfg env)) q)
                        (fa_spin q) i j
                    - mat_mult (cfg_dim (e_cfg env)) (fa_spin q)
                        (fa_old_sig (cfg_dim (e_cfg env)) q) i j)))
               (z_pts z))
            (e_fa_eval env (o_mesh_nodes op) S)
      \<and> o_stressJinvT (UpdateQuadratureData env S dt op)
          = map (\<lambda>z. map (\<lambda>q.
                   mat_scale (q_weight q * q_detJ q)
                     (mat_mult_ABt (cfg_dim (e_cfg env))
                        (\<lambda>i j. fa_visc_coeff (e_cfg env) (e_material env) z q * q_sgrad_v q i j
                               + fa_old_sig (cfg_dim (e_cfg env)) q i j)
                        (q_Jinv q)))
                 (z_pts z))
              (e_fa_eval env (o_mesh_nodes op) S)"
  proof (intro impI, elim conjE)
    assume a: "\<not> o_qdata_is_current op"
       "\<not> (1 < cfg_dim (e_cfg env) \<and> cfg_p_assembly (e_cfg env))"
       "cfg_use_viscosity (e_cfg env)"
    show "o_tauJinvT (UpdateQuadratureData env S dt op)
        = map (\<lambda>z. map (\<lambda>q. (\<lambda>i j.
                 fa_rho q * q_weight q * q_detJ q *
                   (2 * z_mu z * fa_srate q i j
                    + (if i = j
                       then 2 * z_lambda z * mat_trace (cfg_dim (e_cfg env)) (fa_srate q)
                            / real (cfg_dim (e_cfg env))
                       else 0)
                    + mat_mult (cfg_dim (e_cfg env)) (fa_old_sig (cfg_dim (e_cfg env)) q)
                        (fa_spin q) i j
                    - mat_mult (cfg_dim (e_cfg env)) (fa_spin q)
                        (fa_old_sig (cfg_dim (e_cfg env)) q) i j)))
               (z_pts z))
            (e_fa_eval env (o_mesh_nodes op) S)
      \<and> o_stressJinvT (UpdateQuadratureData env S dt op)
          = map (\<lambda>z. map (\<lambda>q.
                   mat_scale (q_weight q * q_detJ q)
                     (mat_mult_ABt (cfg_dim (e_cfg env))
                        (\<lambda>i j. fa_visc_coeff (e_cfg env) (e_material env) z q * q_sgrad_v q i j
                               + fa_old_sig (cfg_dim (e_cfg env)) q i j)
                        (q_Jinv q)))
                 (z_pts z))
              (e_fa_eval env (o_mesh_nodes op) S)"
      using fa_cache_written [OF a(1) a(2), of S dt]
      by (simp add: fa_tauJinvT_written [OF a(3)] fa_stressJiT_written [OF a(3)])
  qed
  have off: "\<not> o_qdata_is_current op \<and> \<not> (1 < cfg_dim (e_cfg env) \<and> cfg_p_assembly (e_cfg env))
      \<and> \<not> cfg_use_viscosity (e_cfg env) \<longrightarrow>
        o_tauJinvT (UpdateQuadratureData env S dt op)
          = map (\<lambda>z. map (\<lambda>q. mat_zero) (z_pts z)) (e_fa_eval env (o_mesh_nodes op) S)
        \<and> o_stressJinvT (UpdateQuadratureData env S dt op)
            = map (\<lambda>z. map (\<lambda>q. mat_zero) (z_pts z)) (e_fa_eval env (o_mesh_nodes op) S)"
  proof (intro impI, elim conjE)
    assume a: "\<not> o_qdata_is_current op"
       "\<not> (1 < cfg_dim (e_cfg env) \<and> cfg_p_assembly (e_cfg env))"
       "\<not> cfg_use_viscosity (e_cfg env)"
    show "o_tauJinvT (UpdateQuadratureData env S dt op)
          = map (\<lambda>z. map (\<lambda>q. mat_zero) (z_pts z)) (e_fa_eval env (o_mesh_nodes op) S)
        \<and> o_stressJinvT (UpdateQuadratureData env S dt op)
            = map (\<lambda>z. map (\<lambda>q. mat_zero) (z_pts z)) (e_fa_eval env (o_mesh_nodes op) S)"
      using fa_cache_written [OF a(1) a(2), of S dt]
      by (simp add: fa_written_off [OF a(3)])
  qed
  have pa: "\<not> o_qdata_is_current op \<and> 1 < cfg_dim (e_cfg env) \<and> cfg_p_assembly (e_cfg env) \<longrightarrow>
        o_tauJinvT (UpdateQuadratureData env S dt op)
          = map (\<lambda>z. map (\<lambda>p. mat_zero) (pz_pts z)) (e_pa_eval env S)
        \<and> o_stressJinvT (UpdateQuadratureData env S dt op)
            = map (\<lambda>z. map (\<lambda>p.
                     mat_scale (p_weight p * p_detJ p)
                       (mat_mult_ABt (cfg_dim (e_cfg env))
                          (\<lambda>i j. (if i = j then - pa_P (pz_gamma z) p else 0)
                                 + (if cfg_use_viscosity (e_cfg env)
                                    then pa_visc_coeff (e_cfg env) (pz_gamma z) p
                                         * pa_srate (cfg_dim (e_cfg env)) p i j
                                    else 0))
                          (p_Jinv p)))
                   (pz_pts z))
                (e_pa_eval env S)"
  proof (intro impI, elim conjE)
    assume a: "\<not> o_qdata_is_current op" "1 < cfg_dim (e_cfg env)" "cfg_p_assembly (e_cfg env)"
    have b: "1 < cfg_dim (e_cfg env) \<and> cfg_p_assembly (e_cfg env)" using a by blast
    show "o_tauJinvT (UpdateQuadratureData env S dt op)
          = map (\<lambda>z. map (\<lambda>p. mat_zero) (pz_pts z)) (e_pa_eval env S)
        \<and> o_stressJinvT (UpdateQuadratureData env S dt op)
            = map (\<lambda>z. map (\<lambda>p.
                     mat_scale (p_weight p * p_detJ p)
                       (mat_mult_ABt (cfg_dim (e_cfg env))
                          (\<lambda>i j. (if i = j then - pa_P (pz_gamma z) p else 0)
                                 + (if cfg_use_viscosity (e_cfg env)
                                    then pa_visc_coeff (e_cfg env) (pz_gamma z) p
                                         * pa_srate (cfg_dim (e_cfg env)) p i j
                                    else 0))
                          (p_Jinv p)))
                   (pz_pts z))
                (e_pa_eval env S)"
      using pa_cache_written [OF a(1) b, of S dt]
      by (simp add: pa_tauJinvT_written pa_stressJiT_written)
  qed
  show ?thesis using on off pa by blast
qed

theorem stress_rate_written_witness:
  "(o_tauJinvT (UpdateQuadratureData ex_env_stretch ex_state 1 ex_oper) ! 0 ! 0) 0 0 = 4
   \<and> (o_stressJinvT (UpdateQuadratureData ex_env_stretch ex_state 1 ex_oper) ! 0 ! 0) 0 0 = 2
   \<and> o_tauJinvT (UpdateQuadratureData
                   (ex_env_stretch\<lparr>e_cfg := ex_cfg\<lparr>cfg_use_viscosity := False\<rparr>\<rparr>)
                   ex_state 1 ex_oper) = [[mat_zero]]
   \<and> o_stressJinvT (UpdateQuadratureData
                      (ex_env_stretch\<lparr>e_cfg := ex_cfg\<lparr>cfg_use_viscosity := False\<rparr>\<rparr>)
                      ex_state 1 ex_oper) = [[mat_zero]]
   \<and> o_tauJinvT (UpdateQuadratureData ex_env_pa ex_state 1 ex_oper) = [[mat_zero]]
   \<and> (o_stressJinvT (UpdateQuadratureData ex_env_pa ex_state 1 ex_oper) ! 0 ! 0) 0 0 = - 2"
proof -
  let ?off = "ex_env_stretch\<lparr>e_cfg := ex_cfg\<lparr>cfg_use_viscosity := False\<rparr>\<rparr>"
  have h1: "\<not> o_qdata_is_current ex_oper
            \<and> \<not> (1 < cfg_dim (e_cfg ex_env_stretch) \<and> cfg_p_assembly (e_cfg ex_env_stretch))
            \<and> cfg_use_viscosity (e_cfg ex_env_stretch)"
    by (simp add: ex_oper_def ex_env_stretch_def ex_env_def ex_cfg_def)
  have h2: "\<not> o_qdata_is_current ex_oper
            \<and> \<not> (1 < cfg_dim (e_cfg ?off) \<and> cfg_p_assembly (e_cfg ?off))
            \<and> \<not> cfg_use_viscosity (e_cfg ?off)"
    by (simp add: ex_oper_def ex_cfg_def)
  have h3: "\<not> o_qdata_is_current ex_oper \<and> 1 < cfg_dim (e_cfg ex_env_pa)
            \<and> cfg_p_assembly (e_cfg ex_env_pa)"
    by (simp add: ex_oper_def ex_env_pa_def ex_env_def ex_cfg_def)
  note A = stress_rate_written_to_cache [of ex_oper ex_env_stretch ex_state 1]
  note B = stress_rate_written_to_cache [of ex_oper ?off ex_state 1]
  note C = stress_rate_written_to_cache [of ex_oper ex_env_pa ex_state 1]
  have a1: "(o_tauJinvT (UpdateQuadratureData ex_env_stretch ex_state 1 ex_oper) ! 0 ! 0) 0 0 = 4"
    using A h1
    by (simp add: ex_env_stretch_def ex_env_def ex_cfg_def ex_zone_def ex_point_def fa_rho_def
          fa_srate_def fa_spin_def fa_old_sig_def mat_symmetrize_def mat_identity_def
          mat_trace_def mat_mult_def mat_add_def sum_below_2)
  have a2: "(o_stressJinvT (UpdateQuadratureData ex_env_stretch ex_state 1 ex_oper) ! 0 ! 0) 0 0 = 2"
    using A h1
    by (simp add: ex_env_stretch_def ex_env_def ex_cfg_def ex_zone_def ex_point_def fa_rho_def
          fa_old_sig_def mat_identity_def mat_scale_def mat_mult_ABt_def sum_below_2
          fa_visc_coeff_def visc_formula_def smooth_step_01_def vorticity_coeff_def
          fa_sound_speed_def ex_material_def Let_def)
  have b1: "o_tauJinvT (UpdateQuadratureData ?off ex_state 1 ex_oper) = [[mat_zero]]
            \<and> o_stressJinvT (UpdateQuadratureData ?off ex_state 1 ex_oper) = [[mat_zero]]"
    using B h2 by (simp add: ex_env_stretch_def ex_env_def ex_zone_def)
  have c1: "o_tauJinvT (UpdateQuadratureData ex_env_pa ex_state 1 ex_oper) = [[mat_zero]]"
    using C h3 by (simp add: ex_env_pa_def ex_env_def)
  have c2: "(o_stressJinvT (UpdateQuadratureData ex_env_pa ex_state 1 ex_oper) ! 0 ! 0) 0 0 = - 2"
    using C h3
    by (simp add: ex_env_pa_def ex_env_def ex_cfg_def ex_pa_point_def pa_P_def pa_R_def pa_E_def
          pa_srate_def pa_grad_v_def mat_symmetrize_def mat_mult_def mat_zero_def
          mat_identity_def mat_scale_def mat_mult_ABt_def sum_below_2 Let_def)
  show ?thesis using a1 a2 b1 c1 c2 by blast
qed

text \<open>
  The claim C7 as stated fails in full assembly: with the identity as velocity gradient,
  lambda = mu = 1 and unit scaling the refresh writes 4 at entry (0, 0) of the stress rate
  cache, while 2 mu (strain rate) minus the isotropic part scaled by 2 mu / dim is 0
  there; and it writes 2 at entry (0, 0) of the stress cache, not the entry 4/3 of
  -p Identity plus the viscous term.
\<close>

theorem stress_rate_written_counterexample:
  "(o_tauJinvT (UpdateQuadratureData ex_env_stretch ex_state 1 ex_oper) ! 0 ! 0) 0 0 = 4
   \<and> fa_rho (ex_point 1 mat_identity 1 0) * q_weight (ex_point 1 mat_identity 1 0)
       * q_detJ (ex_point 1 mat_identity 1 0)
       * spec_deviatoric_rate 2 (z_mu (ex_zone [])) (fa_srate (ex_point 1 mat_identity 1 0)) 0 0
       = 0
   \<and> (o_stressJinvT (UpdateQuadratureData ex_env_stretch ex_state 1 ex_oper) ! 0 ! 0) 0 0 = 2
   \<and> mat_scale (q_weight (ex_point 1 mat_identity 1 0) * q_detJ (ex_point 1 mat_identity 1 0))
       (mat_mult_ABt 2
          (mat_add
             (mat_scale
                (- fst (ex_material (z_gamma (ex_zone [])) (fa_rho (ex_point 1 mat_identity 1 0))
                         (max 0 (q_e (ex_point 1 mat_identity 1 0)))
                         (z_lambda (ex_zone []) + 2 * z_mu (ex_zone []))))
                mat_identity)
             (fa_visc_coeff ex_cfg ex_material (ex_zone []) (ex_point 1 mat_identity 1 0))
             (q_sgrad_v (ex_point 1 mat_identity 1 0)))
          (q_Jinv (ex_point 1 mat_identity 1 0))) 0 0 = 4 / 3"
proof -
  have st: "\<not> o_qdata_is_current ex_oper" by (simp add: ex_oper_def)
  have fa: "\<not> (1 < cfg_dim (e_cfg ex_env_stretch) \<and> cfg_p_assembly (e_cfg ex_env_stretch))"
    by (simp add: ex_env_stretch_def ex_env_def ex_cfg_def)
  have t: "o_tauJinvT (UpdateQuadratureData ex_env_stretch ex_state 1 ex_oper) ! 0 ! 0
             = fa_tauJinvT ex_cfg (ex_zone [ex_point 1 mat_identity 1 0])
                 (ex_point 1 mat_identity 1 0)"
    using fa_cache_written [OF st fa, of ex_state 1]
    by (simp add: ex_env_stretch_def ex_env_def ex_zone_def)
  have t': "fa_tauJinvT ex_cfg (ex_zone [ex_point 1 mat_identity 1 0])
              (ex_point 1 mat_identity 1 0) 0 0 = 4"
    by (simp add: fa_tauJinvT_entry ex_cfg_def ex_zone_def ex_point_def fa_rho_def fa_srate_def
          fa_spin_def fa_old_sig_def mat_symmetrize_def mat_identity_def mat_trace_def
          mat_mult_def mat_add_def sum_below_2)
  have s: "o_stressJinvT (UpdateQuadratureData ex_env_stretch ex_state 1 ex_oper) ! 0 ! 0
             = fa_stressJiT ex_cfg ex_material (ex_zone [ex_point 1 mat_identity 1 0])
                 (ex_point 1 mat_identity 1 0)"
    using fa_cache_written [OF st fa, of ex_state 1]
    by (simp add: ex_env_stretch_def ex_env_def ex_zone_def)
  have v: "cfg_use_viscosity ex_cfg" by (simp add: ex_cfg_def)
  have vc: "fa_visc_coeff ex_cfg ex_material (ex_zone [ex_point 1 mat_identity 1 0])
              (ex_point 1 mat_identity 1 0) = 2"
    by (simp add: fa_visc_coeff_def visc_formula_def smooth_step_01_def vorticity_coeff_def
          fa_sound_speed_def ex_material_def ex_cfg_def ex_point_def fa_rho_def Let_def)
  have s': "fa_stressJiT ex_cfg ex_material (ex_zone [ex_point 1 mat_identity 1 0])
              (ex_point 1 mat_identity 1 0) 0 0 = 2"
    unfolding fa_stressJiT_written [OF v] vc
    by (simp add: ex_point_def ex_cfg_def fa_old_sig_def mat_identity_def mat_scale_def
          mat_mult_ABt_def sum_below_2)
  have d: "fa_rho (ex_point 1 mat_identity 1 0) * q_weight (ex_point 1 mat_identity 1 0)
       * q_detJ (ex_point 1 mat_identity 1 0)
       * spec_deviatoric_rate 2 (z_mu (ex_zone [])) (fa_srate (ex_point 1 mat_identity 1 0)) 0 0
       = 0"
    by (simp add: spec_deviatoric_rate_def ex_zone_def ex_point_def fa_srate_def
          mat_symmetrize_def mat_identity_def mat_trace_def mat_add_def mat_scale_def sum_below_2)
  have p: "mat_scale (q_weight (ex_point 1 mat_identity 1 0) * q_detJ (ex_point 1 mat_identity 1 0))
       (mat_mult_ABt 2
          (mat_add
             (mat_scale
                (- fst (ex_material (z_gamma (ex_zone [])) (fa_rho (ex_point 1 mat_identity 1 0))
                         (max 0 (q_e (ex_point 1 mat_identity 1 0)))
                         (z_lambda (ex_zone []) + 2 * z_mu (ex_zone []))))
                mat_identity)
             (fa_visc_coeff ex_cfg ex_material (ex_zone []) (ex_point 1 mat_identity 1 0))
             (q_sgrad_v (ex_point 1 mat_identity 1 0)))
          (q_Jinv (ex_point 1 mat_identity 1 0))) 0 0 = 4 / 3"
    unfolding ex_identity_visc
    by (simp add: ex_material_def ex_zone_def ex_point_def fa_rho_def mat_identity_def
          mat_scale_def mat_add_def mat_mult_ABt_def sum_below_2)
  show ?thesis unfolding t s using t' s' d p by blast
qed

subsection \<open>The spin coupling\<close>










end
